theory Spec2Isabelle
  imports Main "HOL-Library.Word"
begin

section \<open>The transaction coordinator (pkg/txn/transaction.go)\<close>

text \<open>
  A Go \<^verbatim>\<open>error\<close> is modelled by its message: \<^verbatim>\<open>errors.New(s)\<close> is the string \<open>s\<close>,
  \<^verbatim>\<open>err.Error()\<close> is the string itself, and the nil error is \<open>None\<close> of
  \<open>error option\<close>.
\<close>

type_synonym error = string

text \<open>The states of \<^verbatim>\<open>config.State\<close>, in the order of the constant block.\<close>

datatype State = EMPTY | STARTED | PREPARED | COMMITTED | ABORTED

text \<open>
  A participant is known to the coordinator through the \<^verbatim>\<open>Datastorer\<close> interface only.
  It is modelled the way the repository's generated mocks present it: a name and, for each
  method, the error (or nil) the call returns. The out-buffer of \<^verbatim>\<open>Read\<close> and the typed
  value of \<^verbatim>\<open>Write\<close> play no part in the coordinator's control flow; the value is kept
  as a string.
\<close>

record Datastorer =
  GetName :: string
  ds_Start :: "error option"
  ds_Read :: "string \<Rightarrow> error option"
  ds_Write :: "string \<Rightarrow> string \<Rightarrow> error option"
  ds_Delete :: "string \<Rightarrow> error option"
  ds_Prepare :: "error option"
  ds_Commit :: "error option"
  ds_Abort :: "bool \<Rightarrow> error option"

text \<open>The \<^verbatim>\<open>TSRMaintainer\<close> capability of the global store, by the results of its calls.\<close>

record TSRMaintainer =
  tsr_CreateTSR :: "string \<Rightarrow> State \<Rightarrow> State \<times> error option"
  tsr_WriteTSR :: "string \<Rightarrow> State \<Rightarrow> error option"
  tsr_DeleteTSR :: "string \<Rightarrow> error option"

text \<open>
  The fields of \<^verbatim>\<open>Transaction\<close> that the coordinator's methods read or write. The Go map
  \<^verbatim>\<open>dataStoreMap\<close> is an association list: its order is the order in which one run of
  \<^verbatim>\<open>range\<close> visits the participants (in the parallel prepare, the order in which the
  goroutines reach the critical section). \<^verbatim>\<open>tsrMaintainer\<close> is an interface value and may
  be nil. The embedded \<^verbatim>\<open>StateMachine\<close> is the field \<open>state\<close>. Go's \<^verbatim>\<open>int\<close> and
  \<^verbatim>\<open>int64\<close> are 64-bit words.
\<close>

record Transaction =
  TxnId :: string
  TxnStartTime :: "64 word"
  TxnCommitTime :: "64 word"
  tsrMaintainer :: "TSRMaintainer option"
  dataStoreMap :: "(string \<times> Datastorer) list"
  timeSource :: "string \<Rightarrow> 64 word \<times> error option"
  isReadOnly :: bool
  writeCount :: "64 word"
  isRemote :: bool
  state :: State

text \<open>The two options of \<^verbatim>\<open>config.Config\<close> that \<^verbatim>\<open>Commit\<close> consults.\<close>

datatype ConcurrentOptimizationLevel = DEFAULT | PARALLELIZE_ON_PREPARE

record Config =
  ConcurrentOptimizationLevel :: ConcurrentOptimizationLevel
  AsyncLevel :: int

definition AsyncLevelOne :: int where "AsyncLevelOne = 1"
definition AsyncLevelTwo :: int where "AsyncLevelTwo = 2"

text \<open>
  What a call does to the outside world is recorded as a list of events, in program order:
  the calls on the time source, on the participants and on the TSR maintainer, each with
  its arguments and with what it returned, and the \<^verbatim>\<open>Log.Errorw\<close> lines that report a
  participant's error (message, participant, cause).
  A detached goroutine (\<^verbatim>\<open>go f()\<close> with no join) is not run by the caller: it is
  returned as a task. Goroutines that are joined by a \<^verbatim>\<open>WaitGroup\<close> before the caller goes
  on are part of the caller's own events.
\<close>

datatype event =
    EvGetTime string "64 word \<times> error option"
  | EvDsStart string "error option"
  | EvDsRead string string "error option"
  | EvDsWrite string string string "error option"
  | EvDsDelete string string "error option"
  | EvDsPrepare string "error option"
  | EvDsCommit string "error option"
  | EvDsAbort string bool "error option"
  | EvCreateTSR string State "State \<times> error option"
  | EvWriteTSR string State "error option"
  | EvDeleteTSR string "error option"
  | EvLogError string string error

datatype task = GoAbort | GoCommitAndDeleteTSR | GoDeleteTSR

text \<open>
  A call either returns its \<^verbatim>\<open>error\<close> (nil is \<open>None\<close>) or panics; the only panic of these
  methods is the call through a nil \<^verbatim>\<open>tsrMaintainer\<close>.
\<close>

datatype result = Return "error option" | Panic string

record outcome =
  ret :: result
  trace :: "event list"
  spawned :: "task list"
  txn :: Transaction

definition nilDereference :: string where
  "nilDereference = ''invalid memory address or nil pointer dereference''"

subsection \<open>The state machine\<close>

text \<open>
  Modelled from the spec: the type \<^verbatim>\<open>StateMachine\<close> with \<^verbatim>\<open>GetState\<close>, \<^verbatim>\<open>CheckState\<close> and
  \<^verbatim>\<open>SetState\<close> is embedded in \<^verbatim>\<open>Transaction\<close> but its declaration is not among the sources.
  Section 4.4 fixes the transitions (EMPTY to STARTED, STARTED to COMMITTED, STARTED to
  ABORTED, COMMITTED to ABORTED; ABORTED is terminal) and says that an operation invoked
  in another state than the one it needs fails with a state-violation error.
\<close>

definition StateViolation :: error where
  "StateViolation = ''state violation''"

definition GetState :: "Transaction \<Rightarrow> State" where
  "GetState t = state t"

definition CheckState :: "Transaction \<Rightarrow> State \<Rightarrow> error option" where
  "CheckState t s = (if state t = s then None else Some StateViolation)"

fun allowedTransition :: "State \<Rightarrow> State \<Rightarrow> bool" where
  "allowedTransition EMPTY STARTED = True"
| "allowedTransition STARTED COMMITTED = True"
| "allowedTransition STARTED ABORTED = True"
| "allowedTransition COMMITTED ABORTED = True"
| "allowedTransition _ _ = False"

definition SetState :: "Transaction \<Rightarrow> State \<Rightarrow> error option \<times> Transaction" where
  "SetState t s =
     (if allowedTransition (state t) s then (None, t\<lparr>state := s\<rparr>)
      else (Some StateViolation, t))"

subsection \<open>Construction and wiring\<close>

definition NewTransaction :: "(string \<Rightarrow> 64 word \<times> error option) \<Rightarrow> Transaction" where
  "NewTransaction simpleTimeSource =
     \<lparr>TxnId = [], TxnStartTime = 0, TxnCommitTime = 0, tsrMaintainer = None,
      dataStoreMap = [], timeSource = simpleTimeSource, isReadOnly = True,
      writeCount = 0, isRemote = False, state = EMPTY\<rparr>"

definition AddDatastore :: "Transaction \<Rightarrow> Datastorer \<Rightarrow> error option \<times> Transaction" where
  "AddDatastore t ds =
     (case map_of (dataStoreMap t) (GetName ds) of
        Some _ \<Rightarrow> (Some ''duplicated datastore name'', t)
      | None \<Rightarrow> (None, t\<lparr>dataStoreMap := dataStoreMap t @ [(GetName ds, ds)]\<rparr>))"

definition SetGlobalDatastore :: "Transaction \<Rightarrow> TSRMaintainer \<Rightarrow> Transaction" where
  "SetGlobalDatastore t m = t\<lparr>tsrMaintainer := Some m\<rparr>"

subsection \<open>Read, Write, Delete\<close>

definition Read :: "Transaction \<Rightarrow> string \<Rightarrow> string \<Rightarrow> outcome" where
  "Read t dsName key =
     (case CheckState t STARTED of
        Some err \<Rightarrow> \<lparr>ret = Return (Some err), trace = [], spawned = [], txn = t\<rparr>
      | None \<Rightarrow>
         (case map_of (dataStoreMap t) dsName of
            Some ds \<Rightarrow>
              \<lparr>ret = Return (ds_Read ds key), trace = [EvDsRead (GetName ds) key (ds_Read ds key)],
               spawned = [], txn = t\<rparr>
          | None \<Rightarrow>
              \<lparr>ret = Return (Some ''datastore not found''), trace = [],
               spawned = [], txn = t\<rparr>))"

definition Write :: "Transaction \<Rightarrow> string \<Rightarrow> string \<Rightarrow> string \<Rightarrow> outcome" where
  "Write t dsName key val =
     (case CheckState t STARTED of
        Some err \<Rightarrow> \<lparr>ret = Return (Some err), trace = [], spawned = [], txn = t\<rparr>
      | None \<Rightarrow>
         (let t1 = t\<lparr>isReadOnly := False\<rparr>;
              t2 = t1\<lparr>writeCount := writeCount t1 + 1\<rparr>
          in case map_of (dataStoreMap t2) dsName of
               Some ds \<Rightarrow>
                 \<lparr>ret = Return (ds_Write ds key val),
                  trace = [EvDsWrite (GetName ds) key val (ds_Write ds key val)],
                  spawned = [], txn = t2\<rparr>
             | None \<Rightarrow>
                 \<lparr>ret = Return (Some ''datastore not found''), trace = [],
                  spawned = [], txn = t2\<rparr>))"

definition Delete :: "Transaction \<Rightarrow> string \<Rightarrow> string \<Rightarrow> outcome" where
  "Delete t dsName key =
     (case CheckState t STARTED of
        Some err \<Rightarrow> \<lparr>ret = Return (Some err), trace = [], spawned = [], txn = t\<rparr>
      | None \<Rightarrow>
         (let t1 = t\<lparr>isReadOnly := False\<rparr>
          in case map_of (dataStoreMap t1) dsName of
               Some ds \<Rightarrow>
                 \<lparr>ret = Return (ds_Delete ds key),
                  trace = [EvDsDelete (GetName ds) key (ds_Delete ds key)],
                  spawned = [], txn = t1\<rparr>
             | None \<Rightarrow>
                 \<lparr>ret = Return (Some ''datastore not found''), trace = [],
                  spawned = [], txn = t1\<rparr>))"

subsection \<open>Start\<close>

text \<open>
  \<^verbatim>\<open>config.Config.IdGenerator\<close> is injected from outside; the identifier it hands out is
  the argument \<open>newId\<close>. The loop over the participants stops at the first \<^verbatim>\<open>Start\<close>
  that fails.
\<close>

fun startDatastores :: "(string \<times> Datastorer) list \<Rightarrow> error option \<times> event list" where
  "startDatastores [] = (None, [])"
| "startDatastores ((n, ds) # dss) =
     (case ds_Start ds of
        Some err \<Rightarrow> (Some err, [EvDsStart (GetName ds) (Some err)])
      | None \<Rightarrow>
         (case startDatastores dss of
            (r, evs) \<Rightarrow> (r, EvDsStart (GetName ds) None # evs)))"

definition Start :: "string \<Rightarrow> Transaction \<Rightarrow> outcome" where
  "Start newId t =
     (case SetState t STARTED of
        (Some err, t0) \<Rightarrow> \<lparr>ret = Return (Some err), trace = [], spawned = [], txn = t0\<rparr>
      | (None, t1) \<Rightarrow>
         (case tsrMaintainer t1 of
            None \<Rightarrow>
              \<lparr>ret = Return (Some ''global datastore not set''), trace = [],
               spawned = [], txn = t1\<rparr>
          | Some _ \<Rightarrow>
             (case dataStoreMap t1 of
                [] \<Rightarrow>
                  \<lparr>ret = Return (Some ''no datastores added''), trace = [],
                   spawned = [], txn = t1\<rparr>
              | _ # _ \<Rightarrow>
                 (let t2 = t1\<lparr>TxnId := newId\<rparr>;
                      tm = timeSource t2 ''start'';
                      t3 = t2\<lparr>TxnStartTime := fst tm\<rparr>
                  in case snd tm of
                       Some err \<Rightarrow>
                         \<lparr>ret = Return (Some err), trace = [EvGetTime ''start'' tm],
                          spawned = [], txn = t3\<rparr>
                     | None \<Rightarrow>
                        (case startDatastores (dataStoreMap t3) of
                           (r, evs) \<Rightarrow>
                             \<lparr>ret = Return r, trace = EvGetTime ''start'' tm # evs,
                              spawned = [], txn = t3\<rparr>)))))"

subsection \<open>The TSR calls\<close>

text \<open>Each forwards to \<^verbatim>\<open>t.tsrMaintainer\<close>; \<open>None\<close> is the panic of a call through nil.\<close>

definition CreateTSR :: "Transaction \<Rightarrow> string \<Rightarrow> State \<Rightarrow> (State \<times> error option) option" where
  "CreateTSR t txnId txnState =
     (case tsrMaintainer t of
        None \<Rightarrow> None
      | Some m \<Rightarrow> Some (tsr_CreateTSR m txnId txnState))"

definition WriteTSR :: "Transaction \<Rightarrow> string \<Rightarrow> State \<Rightarrow> (error option) option" where
  "WriteTSR t txnId txnState =
     (case tsrMaintainer t of
        None \<Rightarrow> None
      | Some m \<Rightarrow> Some (tsr_WriteTSR m txnId txnState))"

definition DeleteTSR :: "Transaction \<Rightarrow> (error option) option" where
  "DeleteTSR t =
     (case tsrMaintainer t of
        None \<Rightarrow> None
      | Some m \<Rightarrow> Some (tsr_DeleteTSR m (TxnId t)))"

subsection \<open>Commit\<close>

text \<open>
  The closure \<^verbatim>\<open>prepareDatastore\<close>: it calls \<^verbatim>\<open>ds.Prepare()\<close> and, on an error, assigns
  \<^verbatim>\<open>success, cause = false, err\<close> under the mutex and logs the failure. The pair
  \<open>(success, cause)\<close> is threaded through the calls. (The extra log line with the stack
  trace depends on the dynamic type of the error and is left out.)
\<close>

definition prepareDatastore ::
  "Datastorer \<Rightarrow> bool \<times> error option \<Rightarrow> (bool \<times> error option) \<times> event list" where
  "prepareDatastore ds sc =
     (case ds_Prepare ds of
        None \<Rightarrow> (sc, [EvDsPrepare (GetName ds) None])
      | Some err \<Rightarrow>
          ((False, Some err),
           [EvDsPrepare (GetName ds) (Some err),
            EvLogError ''prepare phase failed'' (GetName ds) err]))"

text \<open>
  Both loops of the prepare phase run the closure once for every participant and never
  stop early: the sequential \<^verbatim>\<open>range\<close>, and the goroutines joined by \<^verbatim>\<open>wg.Wait()\<close>.
\<close>

fun prepareAll ::
  "(string \<times> Datastorer) list \<Rightarrow> bool \<times> error option \<Rightarrow> (bool \<times> error option) \<times> event list" where
  "prepareAll [] sc = (sc, [])"
| "prepareAll ((n, ds) # dss) sc =
     (case prepareDatastore ds sc of
        (sc1, evs1) \<Rightarrow>
          (case prepareAll dss sc1 of
             (sc2, evs2) \<Rightarrow> (sc2, evs1 @ evs2)))"

text \<open>
  The commit fan-out: one goroutine per participant calls \<^verbatim>\<open>ds.Commit()\<close> and drops what
  it returns; \<^verbatim>\<open>wg.Wait()\<close> joins them.
\<close>

definition commitDatastores :: "Transaction \<Rightarrow> event list" where
  "commitDatastores t = map (\<lambda>(n, ds). EvDsCommit (GetName ds) (ds_Commit ds)) (dataStoreMap t)"

definition Commit :: "Config \<Rightarrow> Transaction \<Rightarrow> outcome" where
  "Commit cfg t =
     (case SetState t COMMITTED of
        (Some err, t0) \<Rightarrow> \<lparr>ret = Return (Some err), trace = [], spawned = [], txn = t0\<rparr>
      | (None, t1) \<Rightarrow>
         if isReadOnly t1
         then \<lparr>ret = Return None, trace = [], spawned = [], txn = t1\<rparr>
         else
          (let tm = timeSource t1 ''commit'';
               t2 = t1\<lparr>TxnCommitTime := fst tm\<rparr>;
               evTime = [EvGetTime ''commit'' tm]
           in case snd tm of
                Some err \<Rightarrow>
                  \<lparr>ret = Return (Some err), trace = evTime, spawned = [], txn = t2\<rparr>
              | None \<Rightarrow>
                 (case (if ConcurrentOptimizationLevel cfg = PARALLELIZE_ON_PREPARE
                        then prepareAll (dataStoreMap t2) (True, None)
                        else prepareAll (dataStoreMap t2) (True, None)) of
                    ((success, cause), evsPrepare) \<Rightarrow>
                      if \<not> success
                      then
                       (case cause of
                          None \<Rightarrow>
                            \<lparr>ret = Panic nilDereference, trace = evTime @ evsPrepare,
                             spawned = [GoAbort], txn = t2\<rparr>
                        | Some c \<Rightarrow>
                            \<lparr>ret = Return (Some (''prepare phase failed: '' @ c)),
                             trace = evTime @ evsPrepare, spawned = [GoAbort], txn = t2\<rparr>)
                      else
                       (case CreateTSR t2 (TxnId t2) COMMITTED of
                          None \<Rightarrow>
                            \<lparr>ret = Panic nilDereference, trace = evTime @ evsPrepare,
                             spawned = [], txn = t2\<rparr>
                        | Some r \<Rightarrow>
                           (let evSync = [EvCreateTSR (TxnId t2) COMMITTED r]
                            in case snd r of
                                 Some err \<Rightarrow>
                                   \<lparr>ret = Return
                                      (Some ''transaction is aborted by other transaction''),
                                    trace = evTime @ evsPrepare @ evSync,
                                    spawned = [GoAbort], txn = t2\<rparr>
                               | None \<Rightarrow>
                                  if AsyncLevel cfg = AsyncLevelTwo
                                  then
                                    \<lparr>ret = Return None,
                                     trace = evTime @ evsPrepare @ evSync,
                                     spawned = [GoCommitAndDeleteTSR], txn = t2\<rparr>
                                  else if AsyncLevel cfg = AsyncLevelOne
                                  then
                                    \<lparr>ret = Return None,
                                     trace = evTime @ evsPrepare @ evSync
                                       @ commitDatastores t2,
                                     spawned = [GoDeleteTSR], txn = t2\<rparr>
                                  else
                                   (case DeleteTSR t2 of
                                      None \<Rightarrow>
                                        \<lparr>ret = Panic nilDereference,
                                         trace = evTime @ evsPrepare @ evSync
                                           @ commitDatastores t2,
                                         spawned = [], txn = t2\<rparr>
                                    | Some d \<Rightarrow>
                                        \<lparr>ret = Return None,
                                         trace = evTime @ evsPrepare @ evSync
                                           @ commitDatastores t2
                                           @ [EvDeleteTSR (TxnId t2) d],
                                         spawned = [], txn = t2\<rparr>))))))"

subsection \<open>Abort\<close>

text \<open>
  The loop calls \<^verbatim>\<open>ds.Abort(hasCommitted)\<close> on every participant; an error is logged and
  the loop goes on.
\<close>

definition abortDatastore :: "bool \<Rightarrow> Datastorer \<Rightarrow> event list" where
  "abortDatastore hasCommitted ds =
     (case ds_Abort ds hasCommitted of
        None \<Rightarrow> [EvDsAbort (GetName ds) hasCommitted None]
      | Some err \<Rightarrow>
          [EvDsAbort (GetName ds) hasCommitted (Some err),
           EvLogError ''abort failed'' (GetName ds) err])"

definition abortDatastores :: "bool \<Rightarrow> (string \<times> Datastorer) list \<Rightarrow> event list" where
  "abortDatastores hasCommitted dss =
     concat (map (\<lambda>(n, ds). abortDatastore hasCommitted ds) dss)"

definition Abort :: "Transaction \<Rightarrow> outcome" where
  "Abort t =
     (let lastState = GetState t
      in case SetState t ABORTED of
           (Some err, t0) \<Rightarrow> \<lparr>ret = Return (Some err), trace = [], spawned = [], txn = t0\<rparr>
         | (None, t1) \<Rightarrow>
            (let hasCommitted = (if lastState = COMMITTED then True else False)
             in case WriteTSR t1 (TxnId t1) ABORTED of
                  None \<Rightarrow> \<lparr>ret = Panic nilDereference, trace = [], spawned = [], txn = t1\<rparr>
                | Some w \<Rightarrow>
                    \<lparr>ret = Return None,
                     trace = EvWriteTSR (TxnId t1) ABORTED w
                       # abortDatastores hasCommitted (dataStoreMap t1),
                     spawned = [], txn = t1\<rparr>))"


section \<open>The local hybrid clock (pkg/timesource)\<close>

text \<open>
  The fields of \<^verbatim>\<open>LocalTimeSource\<close>; the mutex serialises the calls and is the reason a
  run is a sequence of steps. \<^verbatim>\<open>int64\<close> is a 64-bit word read with \<open>sint\<close>.
\<close>

record LocalTimeSource =
  physicalTimeUpdateInterval :: "64 word"
  logicalTimeBits :: nat
  maxLogicalTime :: "64 word"
  physicalTime :: "64 word"
  logicalTime :: "64 word"

text \<open>
  \<^verbatim>\<open>int64(math.Pow10(n))\<close>: the powers of ten up to \<open>10 ^ 18\<close> are exact in float64 and
  fit in an \<^verbatim>\<open>int64\<close>; the constructor fixes \<open>n = 6\<close>.
\<close>

definition Pow10 :: "nat \<Rightarrow> 64 word" where
  "Pow10 n = 10 ^ n"

text \<open>
  \<^verbatim>\<open>NewLocalTimeSource\<close>; \<open>now\<close> is what \<^verbatim>\<open>time.Now().UnixMilli()\<close> reads at that moment.
\<close>

definition NewLocalTimeSource :: "64 word \<Rightarrow> LocalTimeSource" where
  "NewLocalTimeSource now =
     \<lparr>physicalTimeUpdateInterval = 1, logicalTimeBits = 6,
      maxLogicalTime = push_bit 6 1 - 1, physicalTime = now, logicalTime = 0\<rparr>"

text \<open>One round of the background loop \<^verbatim>\<open>updatePhysicalTime\<close>, at wall-clock time \<open>now\<close>.\<close>

definition updatePhysicalTime :: "64 word \<Rightarrow> LocalTimeSource \<Rightarrow> LocalTimeSource" where
  "updatePhysicalTime now ts = ts\<lparr>physicalTime := now, logicalTime := 0\<rparr>"

text \<open>
  \<^verbatim>\<open>GetTime\<close> called when the wall clock reads \<open>now\<close> milliseconds. The debug-mode sleep
  changes no value. The error returned is always nil.
\<close>

definition GetTime :: "64 word \<Rightarrow> LocalTimeSource \<Rightarrow> (64 word \<times> error option) \<times> LocalTimeSource" where
  "GetTime now ts =
     (let ts1 = (if sint (maxLogicalTime ts - 10) \<le> sint (logicalTime ts)
                 then ts\<lparr>physicalTime := now, logicalTime := 0\<rparr>
                 else ts);
          ts2 = ts1\<lparr>logicalTime := logicalTime ts1 + 1\<rparr>;
          timestamp = physicalTime ts2 * Pow10 (logicalTimeBits ts2) + logicalTime ts2
      in ((timestamp, None), ts2))"

text \<open>
  Successive calls on one instance, the \<open>i\<close>-th made when the wall clock reads the \<open>i\<close>-th
  element of the list; the result lists the timestamps in the order of the calls.
\<close>

fun getTimes :: "LocalTimeSource \<Rightarrow> 64 word list \<Rightarrow> 64 word list" where
  "getTimes ts [] = []"
| "getTimes ts (now # nows) =
     (case GetTime now ts of
        ((timestamp, err), ts') \<Rightarrow> timestamp # getTimes ts' nows)"

section \<open>The connector's conditional update (pkg/datastore/redis)\<close>

text \<open>
  The record that the connection test builds. \<^verbatim>\<open>RTLease\<close> is a \<^verbatim>\<open>time.Time\<close>, kept as
  milliseconds; \<^verbatim>\<open>RValue\<close> and \<^verbatim>\<open>RPrev\<close> hold serialised JSON, kept as opaque strings.
\<close>

record RedisItem =
  RKey :: string
  RValue :: string
  RGroupKeyList :: string
  RTxnState :: State
  RTValid :: "64 word"
  RTLease :: int
  RPrev :: string
  RLinkedLen :: "64 word"
  RIsDeleted :: bool
  RVersion :: string

text \<open>The contents of the store behind one connection: the item held at each key.\<close>

type_synonym RedisConnection = "string \<Rightarrow> RedisItem option"

definition VersionMismatch :: error where
  "VersionMismatch = ''version mismatch''"

definition KeyNotFound :: error where
  "KeyNotFound = ''key not found''"

text \<open>
  Modelled from the spec: \<^verbatim>\<open>util.AddToString\<close> is used by the tests to compute the
  expected version but is not among the sources. Versions are decimal numerals
  (\<^verbatim>\<open>"1"\<close>, \<^verbatim>\<open>"2"\<close>, ...) and section 4.2 says "Version+1": the numeral is read,
  the number added, and the sum written back as a numeral. What the helper does with a
  string that is no numeral is not known; here each character counts as the digit
  \<open>code - 48\<close>.
\<close>

definition digitChar :: "nat \<Rightarrow> char" where
  "digitChar d = char_of (48 + d)"

definition digitVal :: "char \<Rightarrow> nat" where
  "digitVal c = of_char c - 48"

fun Itoa :: "nat \<Rightarrow> string" where
  "Itoa n = (if n < 10 then [digitChar n] else Itoa (n div 10) @ [digitChar (n mod 10)])"

declare Itoa.simps [simp del]

definition Atoi :: "string \<Rightarrow> nat" where
  "Atoi s = foldl (\<lambda>acc c. 10 * acc + digitVal c) 0 s"

definition AddToString :: "string \<Rightarrow> nat \<Rightarrow> string" where
  "AddToString s n = Itoa (Atoi s + n)"

text \<open>
  Modelled from the spec: the methods of \<^verbatim>\<open>RedisConnection\<close> are exercised by
  \<^verbatim>\<open>redis_connection_test.go\<close> but their bodies are not among the sources.
  \<^verbatim>\<open>GetItem\<close>, \<^verbatim>\<open>PutItem\<close> (unconditional replace) and \<^verbatim>\<open>Delete\<close> follow section 4.2;
  \<^verbatim>\<open>NewRedisConnection\<close> is a connection to a store that holds nothing yet.
  A transport failure of the backend is outside this model.
\<close>

definition NewRedisConnection :: RedisConnection where
  "NewRedisConnection = Map.empty"

definition GetItem :: "RedisConnection \<Rightarrow> string \<Rightarrow> error + RedisItem" where
  "GetItem conn key = (case conn key of None \<Rightarrow> Inl KeyNotFound | Some item \<Rightarrow> Inr item)"

definition PutItem :: "RedisConnection \<Rightarrow> string \<Rightarrow> RedisItem \<Rightarrow> RedisConnection" where
  "PutItem conn key v = conn(key \<mapsto> v)"

definition DeleteKey :: "RedisConnection \<Rightarrow> string \<Rightarrow> RedisConnection" where
  "DeleteKey conn key = conn(key := None)"

text \<open>
  Modelled from the spec: \<^verbatim>\<open>ConditionalUpdate\<close>, from section 4.2 and the four cases of
  \<^verbatim>\<open>TestRedisConnectionConditionalUpdateDoCreate\<close>. With \<^verbatim>\<open>doCreate\<close> the call is the
  atomic insert-if-absent: it stores the item when the key is absent and fails with
  \<^verbatim>\<open>VersionMismatch\<close> when a record is there (the test's "there is an item and doCreate
  is true"). Without \<^verbatim>\<open>doCreate\<close> it replaces an existing record whose stored version
  equals the item's and fails otherwise, also when the key is absent. A success stores the
  item with its version incremented and returns that version; a failure returns the empty
  string with the error and leaves the store as it was.
\<close>

definition ConditionalUpdate ::
  "RedisConnection \<Rightarrow> string \<Rightarrow> RedisItem \<Rightarrow> bool
     \<Rightarrow> (string \<times> error option) \<times> RedisConnection" where
  "ConditionalUpdate conn key v doCreate =
     (let newVer = AddToString (RVersion v) 1
      in if doCreate
         then
          (case conn key of
             None \<Rightarrow> ((newVer, None), conn(key \<mapsto> v\<lparr>RVersion := newVer\<rparr>))
           | Some stored \<Rightarrow> (([], Some VersionMismatch), conn))
         else
          (case conn key of
             None \<Rightarrow> (([], Some VersionMismatch), conn)
           | Some stored \<Rightarrow>
               if RVersion stored = RVersion v
               then ((newVer, None), conn(key \<mapsto> v\<lparr>RVersion := newVer\<rparr>))
               else (([], Some VersionMismatch), conn)))"

text \<open>
  The claim of section 4.2 as it is worded for both values of \<^verbatim>\<open>doCreate\<close>: a record
  whose stored version equals the item's is replaced whatever \<^verbatim>\<open>doCreate\<close> is. It is
  kept beside the model above for comparison.
\<close>

definition ConditionalUpdate_spec ::
  "RedisConnection \<Rightarrow> string \<Rightarrow> RedisItem \<Rightarrow> bool
     \<Rightarrow> (string \<times> error option) \<times> RedisConnection" where
  "ConditionalUpdate_spec conn key v doCreate =
     (let newVer = AddToString (RVersion v) 1
      in case conn key of
           Some stored \<Rightarrow>
             if RVersion stored = RVersion v
             then ((newVer, None), conn(key \<mapsto> v\<lparr>RVersion := newVer\<rparr>))
             else (([], Some VersionMismatch), conn)
         | None \<Rightarrow>
             if doCreate
             then ((newVer, None), conn(key \<mapsto> v\<lparr>RVersion := newVer\<rparr>))
             else (([], Some VersionMismatch), conn))"

text \<open>The two items of \<^verbatim>\<open>TestRedisConnectionConditionalUpdateDoCreate\<close>.\<close>

definition dbItem :: RedisItem where
  "dbItem =
     \<lparr>RKey = ''item1'', RValue = ''item1-db'', RGroupKeyList = ''redis:1'',
      RTxnState = COMMITTED, RTValid = 111, RTLease = - 2000, RPrev = [],
      RLinkedLen = 1, RIsDeleted = False, RVersion = ''1''\<rparr>"

definition cacheItem :: RedisItem where
  "cacheItem =
     \<lparr>RKey = ''item1'', RValue = ''item1-cache'', RGroupKeyList = ''redis:2'',
      RTxnState = COMMITTED, RTValid = 222, RTLease = - 1000, RPrev = ''item1-db-record'',
      RLinkedLen = 2, RIsDeleted = False, RVersion = ''1''\<rparr>"

section \<open>The remote facade (benchmarks/cmd/main.go)\<close>

text \<open>
  The request and response types of package \<^verbatim>\<open>network\<close> are not among the sources;
  their fields are those the handlers and the client use. Items, commit infos,
  predicates and the record configuration are opaque to the handlers and kept as strings.
  In a response built for an error every other field has Go's zero value.
\<close>

record ReadRequest =
  read_DsName :: string
  read_Key :: string
  read_StartTime :: "64 word"
  read_Config :: string

record PrepareRequest =
  prepare_DsName :: string
  prepare_ItemList :: "string list"
  prepare_StartTime :: "64 word"
  prepare_Config :: string
  prepare_ValidationMap :: "(string \<times> string) list"

record CommitRequest =
  commit_DsName :: string
  commit_List :: "string list"
  commit_TCommit :: "64 word"

record AbortRequest =
  abort_DsName :: string
  abort_KeyList :: "string list"
  abort_GroupKeyList :: string

datatype jsonBody =
    ReadResponse (Status: string) (ErrMsg: string) (DataStrategy: string)
      (Data: "string option") (GroupKey: string) (ItemType: string)
  | PrepareResponse (Status: string) (ErrMsg: string)
      (VerMap: "(string \<times> string) list") (TCommit: "64 word")
  | Response (Status: string) (ErrMsg: string)

text \<open>
  What \<^verbatim>\<open>fasthttp\<close> sends back: the status code and the body. \<^verbatim>\<open>ctx.Write\<close> and
  \<^verbatim>\<open>ctx.WriteString\<close> leave the status at its default, 200; \<^verbatim>\<open>ctx.Error\<close> sets the code
  and a plain-text body. The bytes of \<^verbatim>\<open>json.Marshal(resp)\<close> are represented by the
  response value they encode.
\<close>

datatype body = Plain string | Json jsonBody

record HttpResponse =
  StatusCode :: nat
  Body :: body

record HttpRequest =
  Path :: string
  PostBody :: string

definition StatusOK :: nat where "StatusOK = 200"
definition StatusBadRequest :: nat where "StatusBadRequest = 400"
definition StatusNotFound :: nat where "StatusNotFound = 404"

definition ctx_Error :: "string \<Rightarrow> nat \<Rightarrow> HttpResponse" where
  "ctx_Error msg code = \<lparr>StatusCode = code, Body = Plain msg\<rparr>"

definition ctx_WriteString :: "string \<Rightarrow> HttpResponse" where
  "ctx_WriteString str = \<lparr>StatusCode = StatusOK, Body = Plain str\<rparr>"

definition ctx_Write :: "jsonBody \<Rightarrow> HttpResponse" where
  "ctx_Write resp = \<lparr>StatusCode = StatusOK, Body = Json resp\<rparr>"

text \<open>
  The server's collaborators, by what their calls return: the JSON decoders of the four
  request types, \<^verbatim>\<open>reader.Read\<close> (item, strategy and group key, or an error), the three
  calls on the committer, and \<^verbatim>\<open>network.GetItemType\<close>.
\<close>

record Server =
  port :: int
  unmarshalRead :: "string \<Rightarrow> error + ReadRequest"
  unmarshalPrepare :: "string \<Rightarrow> error + PrepareRequest"
  unmarshalCommit :: "string \<Rightarrow> error + CommitRequest"
  unmarshalAbort :: "string \<Rightarrow> error + AbortRequest"
  reader_Read :: "ReadRequest \<Rightarrow> error + (string \<times> string \<times> string)"
  committer_Prepare :: "PrepareRequest \<Rightarrow> error + ((string \<times> string) list \<times> 64 word)"
  committer_Commit :: "CommitRequest \<Rightarrow> error option"
  committer_Abort :: "AbortRequest \<Rightarrow> error option"
  GetItemType :: "string \<Rightarrow> string"

definition pingHandler :: "Server \<Rightarrow> HttpRequest \<Rightarrow> HttpResponse" where
  "pingHandler s rq = ctx_WriteString ''pong''"

definition readHandler :: "Server \<Rightarrow> HttpRequest \<Rightarrow> HttpResponse" where
  "readHandler s rq =
     (case unmarshalRead s (PostBody rq) of
        Inl err \<Rightarrow> ctx_Error (''Invalid timestamp parameter: '' @ err) StatusBadRequest
      | Inr req \<Rightarrow>
         (case reader_Read s req of
            Inl err \<Rightarrow> ctx_Write (ReadResponse ''Error'' err [] None [] [])
          | Inr (item, dataType, gk) \<Rightarrow>
              ctx_Write (ReadResponse ''OK'' [] dataType (Some item) gk
                           (GetItemType s (read_DsName req)))))"

definition prepareHandler :: "Server \<Rightarrow> HttpRequest \<Rightarrow> HttpResponse" where
  "prepareHandler s rq =
     (case unmarshalPrepare s (PostBody rq) of
        Inl err \<Rightarrow>
          ctx_Error (''Invalid prepare request body, error: '' @ err @ [CHR 0x0A]
                       @ '' Body: '' @ PostBody rq @ [CHR 0x0A]) StatusBadRequest
      | Inr req \<Rightarrow>
         (case committer_Prepare s req of
            Inl err \<Rightarrow> ctx_Write (PrepareResponse ''Error'' err [] 0)
          | Inr (verMap, tCommit) \<Rightarrow> ctx_Write (PrepareResponse ''OK'' [] verMap tCommit)))"

definition commitHandler :: "Server \<Rightarrow> HttpRequest \<Rightarrow> HttpResponse" where
  "commitHandler s rq =
     (case unmarshalCommit s (PostBody rq) of
        Inl err \<Rightarrow> ctx_Error ''Invalid commit request body.'' StatusBadRequest
      | Inr req \<Rightarrow>
         (case committer_Commit s req of
            Some err \<Rightarrow> ctx_Write (Response ''Error'' err)
          | None \<Rightarrow> ctx_Write (Response ''OK'' [])))"

definition abortHandler :: "Server \<Rightarrow> HttpRequest \<Rightarrow> HttpResponse" where
  "abortHandler s rq =
     (case unmarshalAbort s (PostBody rq) of
        Inl err \<Rightarrow> ctx_Error ''Invalid abort request body.'' StatusBadRequest
      | Inr req \<Rightarrow>
         (case committer_Abort s req of
            Some err \<Rightarrow> ctx_Write (Response ''Error'' err)
          | None \<Rightarrow> ctx_Write (Response ''OK'' [])))"

text \<open>
  The \<^verbatim>\<open>Status\<close> and \<^verbatim>\<open>ErrMsg\<close> fields of a reply whose body is a JSON response;
  \<open>None\<close> for a plain-text body.
\<close>

definition jsonStatus :: "HttpResponse \<Rightarrow> (string \<times> string) option" where
  "jsonStatus r = (case Body r of Json j \<Rightarrow> Some (Status j, ErrMsg j) | Plain msg \<Rightarrow> None)"

text \<open>The \<^verbatim>\<open>router\<close> closure of \<^verbatim>\<open>Server.Run\<close>: a switch on the path alone.\<close>

definition router :: "Server \<Rightarrow> HttpRequest \<Rightarrow> HttpResponse" where
  "router s rq =
     (if Path rq = ''/ping'' then pingHandler s rq
      else if Path rq = ''/read'' then readHandler s rq
      else if Path rq = ''/prepare'' then prepareHandler s rq
      else if Path rq = ''/commit'' then commitHandler s rq
      else if Path rq = ''/abort'' then abortHandler s rq
      else ctx_Error ''Unsupported path'' StatusNotFound)"

section \<open>Histories and sample configurations\<close>

text \<open>
  The calls a client makes on a transaction before it commits or aborts, and the
  transaction that each leaves behind.
\<close>

datatype call =
    CallAddDatastore Datastorer
  | CallSetGlobalDatastore TSRMaintainer
  | CallStart string
  | CallRead string string
  | CallWrite string string string
  | CallDelete string string

fun perform :: "Transaction \<Rightarrow> call \<Rightarrow> Transaction" where
  "perform t (CallAddDatastore ds) = snd (AddDatastore t ds)"
| "perform t (CallSetGlobalDatastore m) = SetGlobalDatastore t m"
| "perform t (CallStart newId) = txn (Start newId t)"
| "perform t (CallRead dsName key) = txn (Read t dsName key)"
| "perform t (CallWrite dsName key val) = txn (Write t dsName key val)"
| "perform t (CallDelete dsName key) = txn (Delete t dsName key)"

fun isUpdate :: "call \<Rightarrow> bool" where
  "isUpdate (CallWrite dsName key val) = True"
| "isUpdate (CallDelete dsName key) = True"
| "isUpdate _ = False"

text \<open>The errors that the participants' \<^verbatim>\<open>Prepare\<close> calls return, in the order of the calls.\<close>

definition prepareErrors :: "Transaction \<Rightarrow> error list" where
  "prepareErrors t = List.map_filter (\<lambda>(n, ds). ds_Prepare ds) (dataStoreMap t)"

text \<open>
  The events of a commit whose prepare phase succeeded on every participant, up to and
  including the sync point: the commit timestamp is fetched, every participant is
  prepared, and \<^verbatim>\<open>CreateTSR(TxnId, COMMITTED)\<close> is called on the maintainer \<open>m\<close>.
\<close>

definition upToSyncPoint :: "Transaction \<Rightarrow> TSRMaintainer \<Rightarrow> event list" where
  "upToSyncPoint t m =
     EvGetTime ''commit'' (timeSource t ''commit'')
       # map (\<lambda>(n, ds). EvDsPrepare (GetName ds) None) (dataStoreMap t)
       @ [EvCreateTSR (TxnId t) COMMITTED (tsr_CreateTSR m (TxnId t) COMMITTED)]"


fun isCreateTSR :: "event \<Rightarrow> bool" where
  "isCreateTSR (EvCreateTSR i s r) = True"
| "isCreateTSR _ = False"

fun isDsCommit :: "event \<Rightarrow> bool" where
  "isDsCommit (EvDsCommit n r) = True"
| "isDsCommit _ = False"

fun isDeleteTSR :: "event \<Rightarrow> bool" where
  "isDeleteTSR (EvDeleteTSR i r) = True"
| "isDeleteTSR _ = False"

text \<open>Participants, maintainers and a time source with fixed answers, for concrete runs.\<close>

definition steadyStore :: "string \<Rightarrow> Datastorer" where
  "steadyStore name =
     \<lparr>GetName = name, ds_Start = None, ds_Read = (\<lambda>key. None),
      ds_Write = (\<lambda>key val. None), ds_Delete = (\<lambda>key. None), ds_Prepare = None,
      ds_Commit = None, ds_Abort = (\<lambda>hasCommitted. None)\<rparr>"

definition brokenStore :: "string \<Rightarrow> error \<Rightarrow> Datastorer" where
  "brokenStore name err = (steadyStore name)\<lparr>ds_Prepare := Some err\<rparr>"


definition freeSlot :: TSRMaintainer where
  "freeSlot =
     \<lparr>tsr_CreateTSR = (\<lambda>txnId txnState. (txnState, None)),
      tsr_WriteTSR = (\<lambda>txnId txnState. None),
      tsr_DeleteTSR = (\<lambda>txnId. Some ''connection reset'')\<rparr>"

definition takenSlot :: TSRMaintainer where
  "takenSlot =
     \<lparr>tsr_CreateTSR = (\<lambda>txnId txnState. (ABORTED, Some ''key exists'')),
      tsr_WriteTSR = (\<lambda>txnId txnState. None),
      tsr_DeleteTSR = (\<lambda>txnId. None)\<rparr>"

definition steadyClock :: "string \<Rightarrow> 64 word \<times> error option" where
  "steadyClock mode = (if mode = ''start'' then (200, None) else (300, None))"

definition level :: "int \<Rightarrow> Config" where
  "level n = \<lparr>ConcurrentOptimizationLevel = DEFAULT, AsyncLevel = n\<rparr>"

text \<open>
  A transaction over the stores \<open>a\<close> and \<open>b\<close> with the maintainer \<open>m\<close>, wired and started
  the way a client does it.
\<close>

definition started :: "Datastorer \<Rightarrow> Datastorer \<Rightarrow> TSRMaintainer \<Rightarrow> Transaction" where
  "started a b m =
     foldl perform (NewTransaction steadyClock)
       [CallAddDatastore a, CallAddDatastore b, CallSetGlobalDatastore m, CallStart ''txn-1'']"

text \<open>
  Scenario S2 of the specification on such a transaction: both accounts are read and
  then written.
\<close>

definition transfer :: "Datastorer \<Rightarrow> Datastorer \<Rightarrow> TSRMaintainer \<Rightarrow> Transaction" where
  "transfer a b m =
     foldl perform (started a b m)
       [CallRead (GetName a) ''acct1'', CallRead (GetName b) ''acct2'',
        CallWrite (GetName a) ''acct1'' ''90'', CallWrite (GetName b) ''acct2'' ''10'']"


text \<open>A server whose decoders accept the body \<open>ok\<close> only and whose backend fails on \<open>bad\<close>.\<close>

definition sampleServer :: Server where
  "sampleServer =
     \<lparr>port = 8000,
      unmarshalRead = (\<lambda>b. if b = ''ok'' then Inr \<lparr>read_DsName = ''Redis'', read_Key = ''k'',
          read_StartTime = 200, read_Config = []\<rparr>
        else if b = ''bad'' then Inr \<lparr>read_DsName = ''Redis'', read_Key = ''locked'',
          read_StartTime = 200, read_Config = []\<rparr>
        else Inl ''unexpected end of JSON input''),
      unmarshalPrepare = (\<lambda>b. if b = ''ok'' then Inr \<lparr>prepare_DsName = ''Redis'',
          prepare_ItemList = [''k''], prepare_StartTime = 200, prepare_Config = [],
          prepare_ValidationMap = []\<rparr>
        else if b = ''bad'' then Inr \<lparr>prepare_DsName = ''Redis'',
          prepare_ItemList = [''locked''], prepare_StartTime = 200, prepare_Config = [],
          prepare_ValidationMap = []\<rparr>
        else Inl ''unexpected end of JSON input''),
      unmarshalCommit = (\<lambda>b. if b = ''ok'' then Inr \<lparr>commit_DsName = ''Redis'',
          commit_List = [''k''], commit_TCommit = 300\<rparr>
        else if b = ''bad'' then Inr \<lparr>commit_DsName = ''Redis'',
          commit_List = [''locked''], commit_TCommit = 300\<rparr>
        else Inl ''unexpected end of JSON input''),
      unmarshalAbort = (\<lambda>b. if b = ''ok'' then Inr \<lparr>abort_DsName = ''Redis'',
          abort_KeyList = [''k''], abort_GroupKeyList = ''txn-1''\<rparr>
        else if b = ''bad'' then Inr \<lparr>abort_DsName = ''Redis'',
          abort_KeyList = [''locked''], abort_GroupKeyList = ''txn-1''\<rparr>
        else Inl ''unexpected end of JSON input''),
      reader_Read = (\<lambda>req. if read_Key req = ''locked''
        then Inl ''read failed due to unknown txn status''
        else Inr (''item'', ''Normal'', ''txn-0'')),
      committer_Prepare = (\<lambda>req. if prepare_ItemList req = [''locked'']
        then Inl ''version mismatch'' else Inr ([(''k'', ''2'')], 300)),
      committer_Commit = (\<lambda>req. if commit_List req = [''locked'']
        then Some ''version mismatch'' else None),
      committer_Abort = (\<lambda>req. if abort_KeyList req = [''locked'']
        then Some ''version mismatch'' else None),
      GetItemType = (\<lambda>dsName. ''redis'')\<rparr>"

section \<open>Properties of the coordinator\<close>

subsection \<open>The prepare phase\<close>

lemma prepareAll_all_succeed:
  "List.map_filter (\<lambda>(n, ds). ds_Prepare ds) dss = [] \<Longrightarrow>
   prepareAll dss sc = (sc, map (\<lambda>(n, ds). EvDsPrepare (GetName ds) None) dss)"
  by (induction dss arbitrary: sc)
     (auto simp: List.map_filter_simps prepareDatastore_def split: option.splits)

lemma prepareAll_Cons_fst:
  "fst (prepareAll ((n, ds) # dss) sc) = fst (prepareAll dss (fst (prepareDatastore ds sc)))"
  by (simp split: prod.splits)

lemma prepareAll_Cons_snd:
  "snd (prepareAll ((n, ds) # dss) sc)
     = snd (prepareDatastore ds sc) @ snd (prepareAll dss (fst (prepareDatastore ds sc)))"
  by (simp split: prod.splits)

lemma prepareAll_cause:
  "List.map_filter (\<lambda>(n, ds). ds_Prepare ds) dss \<noteq> [] \<Longrightarrow>
   fst (prepareAll dss sc) = (False, Some (last (List.map_filter (\<lambda>(n, ds). ds_Prepare ds) dss)))"
proof (induction dss arbitrary: sc)
  case Nil
  then show ?case by (simp add: List.map_filter_simps)
next
  case (Cons p dss)
  obtain n ds where p: "p = (n, ds)" by (cases p)
  let ?errs = "List.map_filter (\<lambda>(n, ds). ds_Prepare ds) dss"
  show ?case
  proof (cases "?errs = []")
    case True
    with Cons.prems p obtain err where e: "ds_Prepare ds = Some err"
      by (auto simp: List.map_filter_simps split: option.splits)
    from True have "prepareAll dss (False, Some err)
        = ((False, Some err), map (\<lambda>(n, ds). EvDsPrepare (GetName ds) None) dss)"
      by (rule prepareAll_all_succeed)
    with True e p show ?thesis
      by (simp add: List.map_filter_simps prepareDatastore_def)
  next
    case False
    have "fst (prepareAll (p # dss) sc) = (False, Some (last ?errs))"
      unfolding p prepareAll_Cons_fst by (rule Cons.IH [OF False])
    moreover have "last (List.map_filter (\<lambda>(n, ds). ds_Prepare ds) (p # dss)) = last ?errs"
      using False p by (simp add: List.map_filter_simps split: option.splits)
    ultimately show ?thesis by simp
  qed
qed

lemma prepareAll_calls_each:
  "(n, ds) \<in> set dss \<Longrightarrow> EvDsPrepare (GetName ds) (ds_Prepare ds) \<in> set (snd (prepareAll dss sc))"
proof (induction dss arbitrary: sc)
  case Nil
  then show ?case by simp
next
  case (Cons p dss)
  obtain m d where p: "p = (m, d)" by (cases p)
  show ?case
  proof (cases "(n, ds) = p")
    case True
    then show ?thesis
      unfolding p prepareAll_Cons_snd by (auto simp: prepareDatastore_def split: option.splits)
  next
    case False
    with Cons.prems have "(n, ds) \<in> set dss" by simp
    then show ?thesis
      unfolding p prepareAll_Cons_snd using Cons.IH by simp
  qed
qed

lemma prepareAll_no_CreateTSR:
  "filter isCreateTSR (snd (prepareAll dss sc)) = []"
proof (induction dss arbitrary: sc)
  case Nil
  then show ?case by simp
next
  case (Cons p dss)
  obtain m d where p: "p = (m, d)" by (cases p)
  have "filter isCreateTSR (snd (prepareDatastore d sc)) = []"
    by (simp add: prepareDatastore_def split: option.splits)
  then show ?case
    unfolding p prepareAll_Cons_snd using Cons.IH by simp
qed

subsection \<open>The sample transactions\<close>

lemma started_eq:
  "GetName a \<noteq> GetName b \<Longrightarrow>
   started a b m =
     \<lparr>TxnId = ''txn-1'', TxnStartTime = 200, TxnCommitTime = 0, tsrMaintainer = Some m,
      dataStoreMap = [(GetName a, a), (GetName b, b)], timeSource = steadyClock,
      isReadOnly = True, writeCount = 0, isRemote = False, state = STARTED\<rparr>"
  by (simp add: started_def NewTransaction_def AddDatastore_def SetGlobalDatastore_def
      Start_def SetState_def steadyClock_def Let_def split: prod.splits option.splits)

lemma transfer_eq:
  "GetName a \<noteq> GetName b \<Longrightarrow>
   transfer a b m =
     \<lparr>TxnId = ''txn-1'', TxnStartTime = 200, TxnCommitTime = 0, tsrMaintainer = Some m,
      dataStoreMap = [(GetName a, a), (GetName b, b)], timeSource = steadyClock,
      isReadOnly = False, writeCount = 2, isRemote = False, state = STARTED\<rparr>"
  by (simp add: transfer_def started_eq Read_def Write_def CheckState_def Let_def)

subsection \<open>Commit once every participant is prepared\<close>

lemma commitDatastores_cong [simp]:
  "commitDatastores (t\<lparr>state := s, TxnCommitTime := c\<rparr>) = commitDatastores t"
  by (simp add: commitDatastores_def)

lemma Commit_prepared:
  assumes "state t = STARTED" and "\<not> isReadOnly t"
    and "snd (timeSource t ''commit'') = None"
    and "prepareErrors t = []"
    and "tsrMaintainer t = Some m"
  shows "Commit cfg t =
     (let t2 = t\<lparr>state := COMMITTED, TxnCommitTime := fst (timeSource t ''commit'')\<rparr>
      in case snd (tsr_CreateTSR m (TxnId t) COMMITTED) of
           Some err \<Rightarrow>
             \<lparr>ret = Return (Some ''transaction is aborted by other transaction''),
              trace = upToSyncPoint t m, spawned = [GoAbort], txn = t2\<rparr>
         | None \<Rightarrow>
             if AsyncLevel cfg = AsyncLevelTwo
             then \<lparr>ret = Return None, trace = upToSyncPoint t m,
                   spawned = [GoCommitAndDeleteTSR], txn = t2\<rparr>
             else if AsyncLevel cfg = AsyncLevelOne
             then \<lparr>ret = Return None, trace = upToSyncPoint t m @ commitDatastores t,
                   spawned = [GoDeleteTSR], txn = t2\<rparr>
             else \<lparr>ret = Return None,
                   trace = upToSyncPoint t m @ commitDatastores t
                     @ [EvDeleteTSR (TxnId t) (tsr_DeleteTSR m (TxnId t))],
                   spawned = [], txn = t2\<rparr>)"
proof -
  have p: "prepareAll (dataStoreMap t) (True, None)
      = ((True, None), map (\<lambda>(n, ds). EvDsPrepare (GetName ds) None) (dataStoreMap t))"
    using assms(4) unfolding prepareErrors_def by (rule prepareAll_all_succeed)
  show ?thesis
    using assms(1,2,3,5) p
    by (simp add: Commit_def SetState_def Let_def CreateTSR_def DeleteTSR_def
        upToSyncPoint_def commitDatastores_def split: option.splits)
qed

lemma Commit_not_read_only:
  assumes "state t = STARTED" and "\<not> isReadOnly t"
    and "snd (timeSource t ''commit'') = None"
  shows "\<exists>rest. trace (Commit cfg t)
           = EvGetTime ''commit'' (timeSource t ''commit'')
               # snd (prepareAll (dataStoreMap t) (True, None)) @ rest"
  using assms
  by (simp add: Commit_def SetState_def Let_def CreateTSR_def DeleteTSR_def
      split: prod.splits option.splits)

text \<open>
  Claim C1. When the prepare phase has succeeded on every participant, \<^verbatim>\<open>Commit\<close> calls
  \<^verbatim>\<open>CreateTSR(TxnId, COMMITTED)\<close> right after the last \<^verbatim>\<open>Prepare\<close>. If that call returns
  an error, \<^verbatim>\<open>Commit\<close> starts \<^verbatim>\<open>Abort\<close> in a goroutine and returns the error
  "transaction is aborted by other transaction"; nothing follows the sync point, so no
  participant is committed. If the call succeeds, \<^verbatim>\<open>Commit\<close> returns nil and starts no
  \<^verbatim>\<open>Abort\<close>: the successful \<^verbatim>\<open>CreateTSR\<close> is the commit point. The hypotheses say that
  the prepare phase is reached (the transaction is STARTED, is not read-only and gets its
  commit timestamp) and that a global store has been set.
\<close>

theorem Commit_sync_point:
  assumes "state t = STARTED" and "\<not> isReadOnly t"
    and "snd (timeSource t ''commit'') = None"
    and "prepareErrors t = []"
    and "tsrMaintainer t = Some m"
  shows "(\<exists>rest. trace (Commit cfg t) = upToSyncPoint t m @ rest)
       \<and> (snd (tsr_CreateTSR m (TxnId t) COMMITTED) \<noteq> None \<longrightarrow>
            ret (Commit cfg t) = Return (Some ''transaction is aborted by other transaction'')
          \<and> spawned (Commit cfg t) = [GoAbort]
          \<and> trace (Commit cfg t) = upToSyncPoint t m
          \<and> filter isDsCommit (trace (Commit cfg t)) = [])
       \<and> (snd (tsr_CreateTSR m (TxnId t) COMMITTED) = None \<longrightarrow>
            ret (Commit cfg t) = Return None
          \<and> GoAbort \<notin> set (spawned (Commit cfg t)))"
proof -
  have "filter isDsCommit (upToSyncPoint t m) = []"
    by (simp add: upToSyncPoint_def filter_empty_conv split: prod.splits)
  then show ?thesis
    unfolding Commit_prepared [OF assms]
    by (auto simp: Let_def split: option.splits)
qed

theorem Commit_sync_point_witness:
  "prepareErrors (transfer (steadyStore ''R'') (steadyStore ''M'') takenSlot) = []
   \<and> snd (tsr_CreateTSR takenSlot ''txn-1'' COMMITTED) \<noteq> None
   \<and> ret (Commit (level 0) (transfer (steadyStore ''R'') (steadyStore ''M'') takenSlot))
       = Return (Some ''transaction is aborted by other transaction'')
   \<and> spawned (Commit (level 0) (transfer (steadyStore ''R'') (steadyStore ''M'') takenSlot)) = [GoAbort]
   \<and> trace (Commit (level 0) (transfer (steadyStore ''R'') (steadyStore ''M'') takenSlot))
       = [EvGetTime ''commit'' (300, None), EvDsPrepare ''R'' None, EvDsPrepare ''M'' None,
          EvCreateTSR ''txn-1'' COMMITTED (ABORTED, Some ''key exists'')]
   \<and> snd (tsr_CreateTSR freeSlot ''txn-1'' COMMITTED) = None
   \<and> ret (Commit (level 0) (transfer (steadyStore ''R'') (steadyStore ''M'') freeSlot)) = Return None"
proof -
  let ?t = "transfer (steadyStore ''R'') (steadyStore ''M'') takenSlot"
  let ?u = "transfer (steadyStore ''R'') (steadyStore ''M'') freeSlot"
  have t: "state ?t = STARTED" "\<not> isReadOnly ?t" "snd (timeSource ?t ''commit'') = None"
    "prepareErrors ?t = []" "tsrMaintainer ?t = Some takenSlot"
    by (simp_all add: transfer_eq steadyStore_def steadyClock_def prepareErrors_def)
  have u: "state ?u = STARTED" "\<not> isReadOnly ?u" "snd (timeSource ?u ''commit'') = None"
    "prepareErrors ?u = []" "tsrMaintainer ?u = Some freeSlot"
    by (simp_all add: transfer_eq steadyStore_def steadyClock_def prepareErrors_def)
  have i: "TxnId ?t = ''txn-1''" "TxnId ?u = ''txn-1''"
    by (simp_all add: transfer_eq steadyStore_def)
  have s: "upToSyncPoint ?t takenSlot
      = [EvGetTime ''commit'' (300, None), EvDsPrepare ''R'' None, EvDsPrepare ''M'' None,
         EvCreateTSR ''txn-1'' COMMITTED (ABORTED, Some ''key exists'')]"
    by (simp add: upToSyncPoint_def transfer_eq steadyStore_def steadyClock_def takenSlot_def)
  have c: "snd (tsr_CreateTSR takenSlot ''txn-1'' COMMITTED) \<noteq> None"
    "snd (tsr_CreateTSR freeSlot ''txn-1'' COMMITTED) = None"
    by (simp_all add: takenSlot_def freeSlot_def)
  from Commit_sync_point [OF t, of "level 0"] c(1)
  have "ret (Commit (level 0) ?t) = Return (Some ''transaction is aborted by other transaction'')"
    and "spawned (Commit (level 0) ?t) = [GoAbort]"
    and "trace (Commit (level 0) ?t) = upToSyncPoint ?t takenSlot"
    unfolding i by blast+
  moreover from Commit_sync_point [OF u, of "level 0"] c(2)
  have "ret (Commit (level 0) ?u) = Return None"
    unfolding i by blast
  ultimately show ?thesis
    using t(4) c s by simp
qed

text \<open>
  Claim C2, as the code has it. When some participant's \<^verbatim>\<open>Prepare\<close> fails, every failure
  overwrites the recorded cause, so the cause kept at the end of the prepare phase is the
  error of the last failing participant, not of the first. \<^verbatim>\<open>Commit\<close> then starts
  \<^verbatim>\<open>Abort\<close> in a goroutine and returns a new error whose message is
  "prepare phase failed: " followed by the message of that cause; \<^verbatim>\<open>CreateTSR\<close> is never
  called. First the run that separates the two readings: both participants fail, the first
  with "version mismatch", the second with "disk full".
\<close>

theorem Commit_prepare_failure_counterexample:
  "prepareErrors (transfer (brokenStore ''R'' ''version mismatch'') (brokenStore ''M'' ''disk full'') freeSlot)
     = [''version mismatch'', ''disk full'']
   \<and> ret (Commit (level 0) (transfer (brokenStore ''R'' ''version mismatch'') (brokenStore ''M'' ''disk full'') freeSlot))
     = Return (Some ''prepare phase failed: disk full'')
   \<and> ret (Commit (level 0) (transfer (brokenStore ''R'' ''version mismatch'') (brokenStore ''M'' ''disk full'') freeSlot))
     \<noteq> Return (Some ''version mismatch'')"
  by (simp add: transfer_eq brokenStore_def steadyStore_def prepareErrors_def
      Commit_def SetState_def steadyClock_def level_def prepareDatastore_def Let_def)

text \<open>
  Claim C2, amended: the error returned is built from the last error of the prepare
  phase; \<^verbatim>\<open>Abort\<close> is started asynchronously, every participant has been prepared, and
  no \<^verbatim>\<open>CreateTSR\<close> is among the events.
\<close>

theorem Commit_prepare_failure:
  assumes "state t = STARTED" and "\<not> isReadOnly t"
    and "snd (timeSource t ''commit'') = None"
    and "prepareErrors t \<noteq> []"
  shows "ret (Commit cfg t) = Return (Some (''prepare phase failed: '' @ last (prepareErrors t)))
       \<and> spawned (Commit cfg t) = [GoAbort]
       \<and> filter isCreateTSR (trace (Commit cfg t)) = []
       \<and> trace (Commit cfg t) = EvGetTime ''commit'' (timeSource t ''commit'')
            # snd (prepareAll (dataStoreMap t) (True, None))"
proof -
  let ?dss = "dataStoreMap t"
  have c: "fst (prepareAll ?dss (True, None)) = (False, Some (last (prepareErrors t)))"
    using assms(4) unfolding prepareErrors_def by (rule prepareAll_cause)
  obtain evs where p: "prepareAll ?dss (True, None) = ((False, Some (last (prepareErrors t))), evs)"
    using c by (cases "prepareAll ?dss (True, None)") simp
  have n: "filter isCreateTSR evs = []"
    using prepareAll_no_CreateTSR [of ?dss "(True, None)"] p by simp
  show ?thesis
    using assms(1,2,3) p n by (simp add: Commit_def SetState_def Let_def)
qed

theorem Commit_prepare_failure_witness:
  "prepareErrors (transfer (steadyStore ''R'') (brokenStore ''M'' ''version mismatch'') freeSlot) \<noteq> []
   \<and> ret (Commit (level 0) (transfer (steadyStore ''R'') (brokenStore ''M'' ''version mismatch'') freeSlot))
       = Return (Some ''prepare phase failed: version mismatch'')
   \<and> spawned (Commit (level 0) (transfer (steadyStore ''R'') (brokenStore ''M'' ''version mismatch'') freeSlot))
       = [GoAbort]
   \<and> filter isCreateTSR (trace (Commit (level 0) (transfer (steadyStore ''R'') (brokenStore ''M'' ''version mismatch'') freeSlot))) = []"
proof -
  let ?t = "transfer (steadyStore ''R'') (brokenStore ''M'' ''version mismatch'') freeSlot"
  have e: "prepareErrors ?t = [''version mismatch'']"
    by (simp add: transfer_eq brokenStore_def steadyStore_def prepareErrors_def)
  have h1: "state ?t = STARTED" and h2: "\<not> isReadOnly ?t"
    and h3: "snd (timeSource ?t ''commit'') = None"
    by (simp_all add: transfer_eq brokenStore_def steadyStore_def steadyClock_def)
  have h4: "prepareErrors ?t \<noteq> []" using e by simp
  have "ret (Commit (level 0) ?t) = Return (Some (''prepare phase failed: '' @ last (prepareErrors ?t)))"
    and "spawned (Commit (level 0) ?t) = [GoAbort]"
    and "filter isCreateTSR (trace (Commit (level 0) ?t)) = []"
    using Commit_prepare_failure [OF h1 h2 h3 h4, of "level 0"] by blast+
  with e show ?thesis by simp
qed



subsection \<open>Read-only transactions\<close>

lemma perform_keeps_isReadOnly:
  "\<not> isUpdate c \<Longrightarrow> isReadOnly (perform t c) = isReadOnly t"
  by (cases c)
     (auto simp: AddDatastore_def SetGlobalDatastore_def Start_def Read_def SetState_def
        CheckState_def Let_def split: option.splits list.splits prod.splits if_splits)

lemma history_keeps_isReadOnly:
  "list_all (\<lambda>c. \<not> isUpdate c) calls \<Longrightarrow> isReadOnly (foldl perform t calls) = isReadOnly t"
  by (induction calls arbitrary: t) (simp_all add: perform_keeps_isReadOnly)

text \<open>
  Claim C4. A transaction on which no \<^verbatim>\<open>Write\<close> and no \<^verbatim>\<open>Delete\<close> was called since it was
  created is read-only: \<^verbatim>\<open>Commit\<close>, called in state STARTED, sets the state to COMMITTED
  and returns nil with no event at all: no commit timestamp is fetched, no participant
  is prepared or committed, no TSR is created, and no goroutine is started.
\<close>

theorem Commit_read_only:
  assumes "t = foldl perform (NewTransaction clock) calls"
    and "list_all (\<lambda>c. \<not> isUpdate c) calls"
    and "state t = STARTED"
  shows "Commit cfg t = \<lparr>ret = Return None, trace = [], spawned = [], txn = t\<lparr>state := COMMITTED\<rparr>\<rparr>"
proof -
  have "isReadOnly t"
    using assms(1,2) by (simp add: history_keeps_isReadOnly NewTransaction_def)
  then show ?thesis
    using assms(3) by (simp add: Commit_def SetState_def)
qed

theorem Commit_read_only_witness:
  "list_all (\<lambda>c. \<not> isUpdate c)
     [CallAddDatastore (steadyStore ''R''), CallSetGlobalDatastore freeSlot, CallStart ''txn-1'',
      CallRead ''R'' ''a'']
   \<and> state (foldl perform (NewTransaction steadyClock)
     [CallAddDatastore (steadyStore ''R''), CallSetGlobalDatastore freeSlot, CallStart ''txn-1'',
      CallRead ''R'' ''a'']) = STARTED
   \<and> ret (Commit (level 0) (foldl perform (NewTransaction steadyClock)
     [CallAddDatastore (steadyStore ''R''), CallSetGlobalDatastore freeSlot, CallStart ''txn-1'',
      CallRead ''R'' ''a''])) = Return None
   \<and> trace (Commit (level 0) (foldl perform (NewTransaction steadyClock)
     [CallAddDatastore (steadyStore ''R''), CallSetGlobalDatastore freeSlot, CallStart ''txn-1'',
      CallRead ''R'' ''a''])) = []"
proof -
  let ?calls = "[CallAddDatastore (steadyStore ''R''), CallSetGlobalDatastore freeSlot,
      CallStart ''txn-1'', CallRead ''R'' ''a'']"
  let ?t = "foldl perform (NewTransaction steadyClock) ?calls"
  have h1: "list_all (\<lambda>c. \<not> isUpdate c) ?calls" by simp
  have h2: "state ?t = STARTED"
    by (simp add: NewTransaction_def AddDatastore_def SetGlobalDatastore_def Start_def Read_def
        SetState_def CheckState_def steadyClock_def steadyStore_def Let_def)
  from h1 h2 Commit_read_only [OF refl h1 h2, of "level 0"]
  show ?thesis by simp
qed

subsection \<open>Abort\<close>



lemma aborted_eq:
  "GetName a \<noteq> GetName b \<Longrightarrow>
   Abort (started a b m) =
     \<lparr>ret = Return None,
      trace = EvWriteTSR ''txn-1'' ABORTED (tsr_WriteTSR m ''txn-1'' ABORTED)
        # abortDatastores False [(GetName a, a), (GetName b, b)],
      spawned = [],
      txn = (started a b m)\<lparr>state := ABORTED\<rparr>\<rparr>"
  by (simp add: started_eq Abort_def SetState_def GetState_def WriteTSR_def Let_def)




subsection \<open>Operations outside the state STARTED\<close>

text \<open>
  Claim C8. In every state other than STARTED, \<^verbatim>\<open>Read\<close>, \<^verbatim>\<open>Write\<close> and \<^verbatim>\<open>Delete\<close>
  return the state-violation error of \<^verbatim>\<open>CheckState\<close>, call no datastore and leave the
  transaction as it was.
\<close>

theorem Read_Write_Delete_outside_STARTED:
  assumes "state t \<noteq> STARTED"
  shows "Read t dsName key = \<lparr>ret = Return (Some StateViolation), trace = [], spawned = [], txn = t\<rparr>
       \<and> Write t dsName key val = \<lparr>ret = Return (Some StateViolation), trace = [], spawned = [], txn = t\<rparr>
       \<and> Delete t dsName key = \<lparr>ret = Return (Some StateViolation), trace = [], spawned = [], txn = t\<rparr>"
  using assms by (simp add: Read_def Write_def Delete_def CheckState_def)

theorem Read_Write_Delete_outside_STARTED_witness:
  "state (txn (Abort (started (steadyStore ''R'') (steadyStore ''M'') freeSlot))) \<noteq> STARTED
   \<and> ret (Read (txn (Abort (started (steadyStore ''R'') (steadyStore ''M'') freeSlot))) ''R'' ''a'')
       = Return (Some StateViolation)
   \<and> trace (Write (txn (Abort (started (steadyStore ''R'') (steadyStore ''M'') freeSlot))) ''R'' ''a'' ''1'') = []
   \<and> trace (Delete (txn (Abort (started (steadyStore ''R'') (steadyStore ''M'') freeSlot))) ''R'' ''a'') = []"
proof -
  let ?t = "txn (Abort (started (steadyStore ''R'') (steadyStore ''M'') freeSlot))"
  have h: "state ?t \<noteq> STARTED"
    by (simp add: aborted_eq steadyStore_def)
  from h Read_Write_Delete_outside_STARTED [OF h, of "''R''" "''a''" "''1''"]
  show ?thesis by simp
qed

subsection \<open>A write to an unknown datastore\<close>

text \<open>
  Claim C10. \<^verbatim>\<open>Write\<close> and \<^verbatim>\<open>Delete\<close> with a datastore name that was never added return
  "datastore not found" and reach no participant, yet they clear \<^verbatim>\<open>isReadOnly\<close> before
  the lookup (\<^verbatim>\<open>Write\<close> also increments \<^verbatim>\<open>writeCount\<close>). A \<^verbatim>\<open>Commit\<close> that follows is
  therefore off the read-only fast path: it fetches the commit timestamp and prepares
  every participant, and when every \<^verbatim>\<open>Prepare\<close> succeeds it calls
  \<^verbatim>\<open>CreateTSR(TxnId, COMMITTED)\<close>.
\<close>

theorem Write_unknown_datastore:
  assumes "state t = STARTED"
    and "map_of (dataStoreMap t) dsName = None"
  shows "Write t dsName key val
           = \<lparr>ret = Return (Some ''datastore not found''), trace = [], spawned = [],
              txn = t\<lparr>isReadOnly := False, writeCount := writeCount t + 1\<rparr>\<rparr>
       \<and> Delete t dsName key
           = \<lparr>ret = Return (Some ''datastore not found''), trace = [], spawned = [],
              txn = t\<lparr>isReadOnly := False\<rparr>\<rparr>
       \<and> (\<forall>t' \<in> {txn (Write t dsName key val), txn (Delete t dsName key)}.
            snd (timeSource t ''commit'') = None \<longrightarrow>
              (\<exists>rest. trace (Commit cfg t')
                 = EvGetTime ''commit'' (timeSource t ''commit'')
                     # snd (prepareAll (dataStoreMap t) (True, None)) @ rest)
            \<and> (\<forall>(n, ds) \<in> set (dataStoreMap t).
                 EvDsPrepare (GetName ds) (ds_Prepare ds) \<in> set (trace (Commit cfg t')))
            \<and> (\<forall>m. prepareErrors t = [] \<and> tsrMaintainer t = Some m \<longrightarrow>
                 EvCreateTSR (TxnId t) COMMITTED (tsr_CreateTSR m (TxnId t) COMMITTED)
                   \<in> set (trace (Commit cfg t'))))"
proof -
  let ?w = "t\<lparr>isReadOnly := False, writeCount := writeCount t + 1\<rparr>"
  let ?d = "t\<lparr>isReadOnly := False\<rparr>"
  have w: "Write t dsName key val
           = \<lparr>ret = Return (Some ''datastore not found''), trace = [], spawned = [], txn = ?w\<rparr>"
    using assms by (simp add: Write_def CheckState_def Let_def)
  have d: "Delete t dsName key
           = \<lparr>ret = Return (Some ''datastore not found''), trace = [], spawned = [], txn = ?d\<rparr>"
    using assms by (simp add: Delete_def CheckState_def Let_def)
  have k: "(\<exists>rest. trace (Commit cfg t')
                 = EvGetTime ''commit'' (timeSource t ''commit'')
                     # snd (prepareAll (dataStoreMap t) (True, None)) @ rest)
            \<and> (\<forall>(n, ds) \<in> set (dataStoreMap t).
                 EvDsPrepare (GetName ds) (ds_Prepare ds) \<in> set (trace (Commit cfg t')))
            \<and> (\<forall>m. prepareErrors t = [] \<and> tsrMaintainer t = Some m \<longrightarrow>
                 EvCreateTSR (TxnId t) COMMITTED (tsr_CreateTSR m (TxnId t) COMMITTED)
                   \<in> set (trace (Commit cfg t')))"
    if t': "state t' = STARTED" "\<not> isReadOnly t'" "timeSource t' = timeSource t"
      "dataStoreMap t' = dataStoreMap t" "tsrMaintainer t' = tsrMaintainer t" "TxnId t' = TxnId t"
      and g: "snd (timeSource t ''commit'') = None"
    for t'
  proof -
    from g t'(3) have g': "snd (timeSource t' ''commit'') = None" by simp
    from Commit_not_read_only [OF t'(1,2) g', of cfg]
    obtain rest where r: "trace (Commit cfg t')
        = EvGetTime ''commit'' (timeSource t ''commit'')
            # snd (prepareAll (dataStoreMap t) (True, None)) @ rest"
      unfolding t'(3,4) by blast
    have p: "\<forall>(n, ds) \<in> set (dataStoreMap t).
        EvDsPrepare (GetName ds) (ds_Prepare ds) \<in> set (trace (Commit cfg t'))"
      unfolding r using prepareAll_calls_each [of _ _ "dataStoreMap t" "(True, None)"] by auto
    have c: "EvCreateTSR (TxnId t) COMMITTED (tsr_CreateTSR m (TxnId t) COMMITTED)
        \<in> set (trace (Commit cfg t'))"
      if m: "prepareErrors t = []" "tsrMaintainer t = Some m" for m
    proof -
      have e: "prepareErrors t' = []" using m(1) t'(4) by (simp add: prepareErrors_def)
      have s: "tsrMaintainer t' = Some m" using m(2) t'(5) by simp
      from Commit_prepared [OF t'(1,2) g' e s, of cfg]
      have "\<exists>rest. trace (Commit cfg t') = upToSyncPoint t' m @ rest"
        by (auto simp: Let_def split: option.splits)
      then show ?thesis
        by (auto simp: upToSyncPoint_def t'(6))
    qed
    from r p c show ?thesis by blast
  qed
  have "state ?w = STARTED" "\<not> isReadOnly ?w" "timeSource ?w = timeSource t"
      "dataStoreMap ?w = dataStoreMap t" "tsrMaintainer ?w = tsrMaintainer t" "TxnId ?w = TxnId t"
    using assms(1) by simp_all
  note kw = k [OF this]
  have "state ?d = STARTED" "\<not> isReadOnly ?d" "timeSource ?d = timeSource t"
      "dataStoreMap ?d = dataStoreMap t" "tsrMaintainer ?d = tsrMaintainer t" "TxnId ?d = TxnId t"
    using assms(1) by simp_all
  note kd = k [OF this]
  show ?thesis
    unfolding w d using kw kd by simp
qed

theorem Write_unknown_datastore_witness:
  "state (started (steadyStore ''R'') (steadyStore ''M'') freeSlot) = STARTED
   \<and> map_of (dataStoreMap (started (steadyStore ''R'') (steadyStore ''M'') freeSlot)) ''Mongo'' = None
   \<and> isReadOnly (started (steadyStore ''R'') (steadyStore ''M'') freeSlot)
   \<and> ret (Write (started (steadyStore ''R'') (steadyStore ''M'') freeSlot) ''Mongo'' ''a'' ''1'')
       = Return (Some ''datastore not found'')
   \<and> \<not> isReadOnly (txn (Write (started (steadyStore ''R'') (steadyStore ''M'') freeSlot) ''Mongo'' ''a'' ''1''))
   \<and> writeCount (txn (Write (started (steadyStore ''R'') (steadyStore ''M'') freeSlot) ''Mongo'' ''a'' ''1'')) = 1
   \<and> EvDsPrepare ''R'' None
       \<in> set (trace (Commit (level 0)
           (txn (Write (started (steadyStore ''R'') (steadyStore ''M'') freeSlot) ''Mongo'' ''a'' ''1''))))
   \<and> EvDsPrepare ''M'' None
       \<in> set (trace (Commit (level 0)
           (txn (Write (started (steadyStore ''R'') (steadyStore ''M'') freeSlot) ''Mongo'' ''a'' ''1''))))
   \<and> EvCreateTSR ''txn-1'' COMMITTED (COMMITTED, None)
       \<in> set (trace (Commit (level 0)
           (txn (Write (started (steadyStore ''R'') (steadyStore ''M'') freeSlot) ''Mongo'' ''a'' ''1''))))"
proof -
  let ?t = "started (steadyStore ''R'') (steadyStore ''M'') freeSlot"
  have e: "?t = \<lparr>TxnId = ''txn-1'', TxnStartTime = 200, TxnCommitTime = 0,
      tsrMaintainer = Some freeSlot,
      dataStoreMap = [(''R'', steadyStore ''R''), (''M'', steadyStore ''M'')],
      timeSource = steadyClock, isReadOnly = True, writeCount = 0, isRemote = False,
      state = STARTED\<rparr>"
    using started_eq [of "steadyStore ''R''" "steadyStore ''M''" freeSlot]
    by (simp add: steadyStore_def)
  have h: "state ?t = STARTED" "map_of (dataStoreMap ?t) ''Mongo'' = None"
    unfolding e by simp_all
  have g: "snd (timeSource ?t ''commit'') = None" "prepareErrors ?t = []"
    "tsrMaintainer ?t = Some freeSlot" "isReadOnly ?t" "TxnId ?t = ''txn-1''"
    "writeCount ?t = 0"
    unfolding e by (simp_all add: steadyClock_def prepareErrors_def steadyStore_def)
  note w = Write_unknown_datastore [OF h, of "''a''" "''1''" "level 0"]
  let ?w = "txn (Write ?t ''Mongo'' ''a'' ''1'')"
  from w have r: "ret (Write ?t ''Mongo'' ''a'' ''1'') = Return (Some ''datastore not found'')"
    and x: "?w = ?t\<lparr>isReadOnly := False, writeCount := writeCount ?t + 1\<rparr>"
    by simp_all
  from w g(1) have p: "\<forall>(n, ds) \<in> set (dataStoreMap ?t).
      EvDsPrepare (GetName ds) (ds_Prepare ds) \<in> set (trace (Commit (level 0) ?w))"
    by blast
  from w g(1,2,3) have c: "EvCreateTSR (TxnId ?t) COMMITTED (tsr_CreateTSR freeSlot (TxnId ?t) COMMITTED)
      \<in> set (trace (Commit (level 0) ?w))"
    by blast
  have p1: "EvDsPrepare ''R'' None \<in> set (trace (Commit (level 0) ?w))"
    and p2: "EvDsPrepare ''M'' None \<in> set (trace (Commit (level 0) ?w))"
    using p unfolding e by (simp_all add: steadyStore_def)
  have c1: "EvCreateTSR ''txn-1'' COMMITTED (COMMITTED, None) \<in> set (trace (Commit (level 0) ?w))"
    using c unfolding g(5) by (simp add: freeSlot_def)
  have y: "\<not> isReadOnly ?w" "writeCount ?w = 1"
    unfolding x using g(6) by simp_all
  from h g(4) r y p1 p2 c1 show ?thesis by blast
qed

section \<open>Properties of the local hybrid clock\<close>

lemma sint_small: "l < 2 ^ 63 \<Longrightarrow> sint (of_nat l :: 64 word) = int l"
  by (simp add: signed_of_nat signed_take_bit_int_eq_self)

lemma GetTime_no_reset:
  assumes "maxLogicalTime ts = 63" and "logicalTimeBits ts = 6"
    and "logicalTime ts = of_nat l" and "l < 53"
  shows "GetTime now ts
     = ((physicalTime ts * 1000000 + of_nat (Suc l), None), ts\<lparr>logicalTime := of_nat (Suc l)\<rparr>)"
proof -
  have "sint (of_nat l :: 64 word) = int l"
    using assms(4) by (simp add: sint_small)
  then have "\<not> sint (maxLogicalTime ts - 10) \<le> sint (logicalTime ts)"
    using assms by simp
  then show ?thesis
    using assms(2,3) by (simp add: GetTime_def Pow10_def Let_def)
qed

lemma GetTime_reset:
  assumes "maxLogicalTime ts = 63" and "logicalTimeBits ts = 6"
    and "logicalTime ts = 53"
  shows "GetTime now ts
     = ((now * 1000000 + 1, None), ts\<lparr>physicalTime := now, logicalTime := 1\<rparr>)"
  using assms by (simp add: GetTime_def Pow10_def Let_def)

lemma upt_shift: "[1..<Suc (Suc k)] = 1 # map Suc [1..<Suc k]"
proof -
  have "[1..<Suc (Suc k)] = 1 # [Suc 1..<Suc (Suc k)]"
    by (rule upt_conv_Cons) simp
  also have "[Suc 1..<Suc (Suc k)] = map Suc [1..<Suc k]"
    by (simp only: map_Suc_upt)
  finally show ?thesis .
qed

lemma getTimes_climb:
  assumes "maxLogicalTime ts = 63" and "logicalTimeBits ts = 6" and "l + k \<le> 53"
  shows "getTimes (ts\<lparr>logicalTime := of_nat l\<rparr>) (replicate k now @ rest)
     = map (\<lambda>i. physicalTime ts * 1000000 + of_nat (l + i)) [1..<Suc k]
         @ getTimes (ts\<lparr>logicalTime := of_nat (l + k)\<rparr>) rest"
  using assms(3)
proof (induction k arbitrary: l)
  case 0
  show ?case by simp
next
  case (Suc k)
  have "GetTime now (ts\<lparr>logicalTime := of_nat l\<rparr>)
      = ((physicalTime (ts\<lparr>logicalTime := of_nat l\<rparr>) * 1000000 + of_nat (Suc l), None),
         ts\<lparr>logicalTime := of_nat l\<rparr>\<lparr>logicalTime := of_nat (Suc l)\<rparr>)"
    using assms(1,2) Suc.prems by (intro GetTime_no_reset) simp_all
  then have g: "GetTime now (ts\<lparr>logicalTime := of_nat l\<rparr>)
      = ((physicalTime ts * 1000000 + of_nat (Suc l), None), ts\<lparr>logicalTime := of_nat (Suc l)\<rparr>)"
    by simp
  have h: "getTimes (ts\<lparr>logicalTime := of_nat (Suc l)\<rparr>) (replicate k now @ rest)
     = map (\<lambda>i. physicalTime ts * 1000000 + of_nat (Suc l + i)) [1..<Suc k]
         @ getTimes (ts\<lparr>logicalTime := of_nat (Suc l + k)\<rparr>) rest"
    using Suc.prems by (intro Suc.IH) simp
  have u: "[1..<Suc (Suc k)] = 1 # map Suc [1..<Suc k]"
    by (rule upt_shift)
  have "getTimes (ts\<lparr>logicalTime := of_nat l\<rparr>) (replicate (Suc k) now @ rest)
      = (physicalTime ts * 1000000 + of_nat (Suc l))
          # getTimes (ts\<lparr>logicalTime := of_nat (Suc l)\<rparr>) (replicate k now @ rest)"
    using g by simp
  also have "\<dots> = (physicalTime ts * 1000000 + of_nat (Suc l))
          # map (\<lambda>i. physicalTime ts * 1000000 + of_nat (Suc l + i)) [1..<Suc k]
          @ getTimes (ts\<lparr>logicalTime := of_nat (Suc l + k)\<rparr>) rest"
    by (simp only: h append_Cons)
  also have "\<dots> = map (\<lambda>i. physicalTime ts * 1000000 + of_nat (l + i)) [1..<Suc (Suc k)]
          @ getTimes (ts\<lparr>logicalTime := of_nat (l + Suc k)\<rparr>) rest"
    unfolding u by (simp add: comp_def)
  finally show ?case .
qed

text \<open>
  Claim C7 says that of two calls of \<^verbatim>\<open>GetTime\<close> on one instance the earlier returns the
  strictly smaller timestamp as long as the wall clock never goes back. The code resets
  the logical counter once it has reached \<open>maxLogicalTime - 10 = 53\<close> and reads the wall
  clock again, without looking whether the millisecond has changed. On a fresh instance,
  54 calls within one millisecond (the wall clock reads 1700000000000 throughout, so it
  never decreases): the 53rd call returns the timestamp ending in 53, the 54th call the
  one ending in 1, which is the timestamp of the first call again.
\<close>

theorem GetTime_steps_back:
  "map sint (drop 52 (getTimes (NewLocalTimeSource 1700000000000) (replicate 54 1700000000000)))
     = [1700000000000000053, 1700000000000000001]"
proof -
  let ?ts = "NewLocalTimeSource 1700000000000"
  have r: "replicate 54 (1700000000000 :: 64 word) = replicate 53 1700000000000 @ [1700000000000]"
  proof -
    have "(54 :: nat) = Suc 53" by simp
    then have "replicate 54 (1700000000000 :: 64 word) = 1700000000000 # replicate 53 1700000000000"
      by (simp only: replicate_Suc)
    then show ?thesis by (simp only: replicate_append_same)
  qed
  have n: "maxLogicalTime ?ts = 63" "logicalTimeBits ?ts = 6"
    "physicalTime ?ts = 1700000000000"
    by (simp_all add: NewLocalTimeSource_def)
  have z: "?ts = ?ts\<lparr>logicalTime := of_nat 0\<rparr>"
    by (simp add: NewLocalTimeSource_def)
  have "getTimes (?ts\<lparr>logicalTime := of_nat 0\<rparr>) (replicate 53 1700000000000 @ [1700000000000])
     = map (\<lambda>i. physicalTime ?ts * 1000000 + of_nat (0 + i)) [1..<Suc 53]
         @ getTimes (?ts\<lparr>logicalTime := of_nat (0 + 53)\<rparr>) [1700000000000]"
    using n(1,2) by (rule getTimes_climb) simp
  then have c: "getTimes ?ts (replicate 53 1700000000000 @ [1700000000000])
     = map (\<lambda>i. physicalTime ?ts * 1000000 + of_nat (0 + i)) [1..<Suc 53]
         @ getTimes (?ts\<lparr>logicalTime := of_nat (0 + 53)\<rparr>) [1700000000000]"
    by (simp only: z [symmetric])
  have l: "getTimes (?ts\<lparr>logicalTime := of_nat (0 + 53)\<rparr>) [1700000000000]
     = [1700000000000 * 1000000 + 1]"
    using GetTime_reset [of "?ts\<lparr>logicalTime := 53\<rparr>" 1700000000000] n(1,2) by simp
  have d: "drop 52 [1..<Suc 53] = [53]"
    by (simp add: drop_upt)
  show ?thesis
    unfolding r c l using n(3) d by (simp add: drop_map)
qed

section \<open>Properties of the conditional update\<close>

lemma digitVal_digitChar: "d < 10 \<Longrightarrow> digitVal (digitChar d) = d"
  by (simp add: digitVal_def digitChar_def)

lemma Atoi_snoc: "Atoi (s @ [c]) = 10 * Atoi s + digitVal c"
  by (simp add: Atoi_def)

lemma Atoi_Itoa: "Atoi (Itoa n) = n"
proof (induction n rule: Itoa.induct)
  case (1 n)
  show ?case
  proof (cases "n < 10")
    case True
    then have "Itoa n = [digitChar n]"
      by (subst Itoa.simps) simp
    with True show ?thesis
      by (simp add: Atoi_def digitVal_digitChar)
  next
    case False
    then have "Itoa n = Itoa (n div 10) @ [digitChar (n mod 10)]"
      by (subst Itoa.simps) simp
    then have "Atoi (Itoa n) = 10 * Atoi (Itoa (n div 10)) + digitVal (digitChar (n mod 10))"
      by (simp only: Atoi_snoc)
    also have "\<dots> = 10 * (n div 10) + n mod 10"
      using 1 False by (simp add: digitVal_digitChar)
    finally show ?thesis by simp
  qed
qed

lemma AddToString_numeral: "AddToString (Itoa n) k = Itoa (n + k)"
  by (simp add: AddToString_def Atoi_Itoa)

lemma AddToString_1: "AddToString ''1'' 1 = ''2''"
  by code_simp

lemma AddToString_1_Suc: "AddToString ''1'' (Suc 0) = ''2''"
  using AddToString_1 by simp

text \<open>
  Claim C5 as it is worded holds "for either value of doCreate": a record that exists with
  the item's version is replaced. The second case of
  \<^verbatim>\<open>TestRedisConnectionConditionalUpdateDoCreate\<close> is the run that contradicts it:
  \<^verbatim>\<open>dbItem\<close> is stored with version "1", \<^verbatim>\<open>cacheItem\<close> carries version "1" too, and with
  \<^verbatim>\<open>doCreate = true\<close> the call fails with \<^verbatim>\<open>VersionMismatch\<close>, where the wording of the
  claim would store version "2".
\<close>

theorem ConditionalUpdate_doCreate_counterexample:
  "RVersion dbItem = RVersion cacheItem
   \<and> GetItem (PutItem NewRedisConnection ''item1'' dbItem) ''item1'' = Inr dbItem
   \<and> fst (ConditionalUpdate (PutItem NewRedisConnection ''item1'' dbItem) ''item1'' cacheItem True)
       = ([], Some VersionMismatch)
   \<and> fst (ConditionalUpdate_spec (PutItem NewRedisConnection ''item1'' dbItem) ''item1'' cacheItem True)
       = (''2'', None)"
  by (simp add: ConditionalUpdate_def ConditionalUpdate_spec_def PutItem_def GetItem_def
      NewRedisConnection_def dbItem_def cacheItem_def AddToString_1_Suc Let_def)

text \<open>
  Claim C5, amended: without \<^verbatim>\<open>doCreate\<close>, a record whose stored version equals the
  item's is replaced, the stored version becomes Version+1 and is returned; with
  \<^verbatim>\<open>doCreate\<close>, an absent key receives the item with its version incremented by one
  (insert-if-absent); in every other case (no record and no \<^verbatim>\<open>doCreate\<close>, a record
  with a different version, or a record and \<^verbatim>\<open>doCreate\<close>) the call fails with
  \<^verbatim>\<open>VersionMismatch\<close> and the store is unchanged. On a decimal numeral the new version
  is the numeral of the successor.
\<close>

theorem ConditionalUpdate_cases:
  "(\<not> doCreate \<and> conn key = Some stored \<and> RVersion stored = RVersion v \<longrightarrow>
      ConditionalUpdate conn key v doCreate
        = ((AddToString (RVersion v) 1, None),
           conn(key \<mapsto> v\<lparr>RVersion := AddToString (RVersion v) 1\<rparr>)))
   \<and> (doCreate \<and> conn key = None \<longrightarrow>
      ConditionalUpdate conn key v doCreate
        = ((AddToString (RVersion v) 1, None),
           conn(key \<mapsto> v\<lparr>RVersion := AddToString (RVersion v) 1\<rparr>)))
   \<and> ((\<not> doCreate \<and> conn key = None)
        \<or> (conn key = Some stored \<and> RVersion stored \<noteq> RVersion v)
        \<or> (doCreate \<and> conn key = Some stored) \<longrightarrow>
      ConditionalUpdate conn key v doCreate = (([], Some VersionMismatch), conn))
   \<and> (RVersion v = Itoa n \<longrightarrow> AddToString (RVersion v) 1 = Itoa (n + 1))"
  by (auto simp: ConditionalUpdate_def Let_def AddToString_numeral)

theorem ConditionalUpdate_cases_witness:
  "fst (ConditionalUpdate (DeleteKey NewRedisConnection ''item1'') ''item1'' cacheItem True)
       = (''2'', None)
   \<and> GetItem (snd (ConditionalUpdate (DeleteKey NewRedisConnection ''item1'') ''item1'' cacheItem True))
         ''item1'' = Inr (cacheItem\<lparr>RVersion := ''2''\<rparr>)
   \<and> ConditionalUpdate (PutItem NewRedisConnection ''item1'' dbItem) ''item1'' cacheItem True
       = (([], Some VersionMismatch), PutItem NewRedisConnection ''item1'' dbItem)
   \<and> ConditionalUpdate (DeleteKey NewRedisConnection ''item1'') ''item1'' cacheItem False
       = (([], Some VersionMismatch), DeleteKey NewRedisConnection ''item1'')
   \<and> fst (ConditionalUpdate (PutItem NewRedisConnection ''item1'' dbItem) ''item1'' cacheItem False)
       = (''2'', None)
   \<and> GetItem (snd (ConditionalUpdate (PutItem NewRedisConnection ''item1'' dbItem) ''item1'' cacheItem False))
         ''item1'' = Inr (cacheItem\<lparr>RVersion := ''2''\<rparr>)
   \<and> ConditionalUpdate (PutItem NewRedisConnection ''item1'' (dbItem\<lparr>RVersion := ''7''\<rparr>)) ''item1''
         cacheItem False
       = (([], Some VersionMismatch), PutItem NewRedisConnection ''item1'' (dbItem\<lparr>RVersion := ''7''\<rparr>))"
proof -
  let ?absent = "DeleteKey NewRedisConnection ''item1''"
  let ?present = "PutItem NewRedisConnection ''item1'' dbItem"
  let ?newer = "PutItem NewRedisConnection ''item1'' (dbItem\<lparr>RVersion := ''7''\<rparr>)"
  have a: "?absent ''item1'' = None"
    by (simp add: DeleteKey_def)
  have p: "?present ''item1'' = Some dbItem" "RVersion dbItem = RVersion cacheItem"
    by (simp_all add: PutItem_def dbItem_def cacheItem_def)
  have q: "?newer ''item1'' = Some (dbItem\<lparr>RVersion := ''7''\<rparr>)"
    "RVersion (dbItem\<lparr>RVersion := ''7''\<rparr>) \<noteq> RVersion cacheItem"
    by (simp_all add: PutItem_def cacheItem_def)
  have v: "AddToString (RVersion cacheItem) 1 = ''2''"
  proof -
    have "RVersion cacheItem = ''1''" by (simp add: cacheItem_def)
    then show ?thesis by (simp only: AddToString_1)
  qed
  note c1 = ConditionalUpdate_cases [of True ?absent "''item1''" dbItem cacheItem 1, unfolded v]
  note c2 = ConditionalUpdate_cases [of True ?present "''item1''" dbItem cacheItem 1, unfolded v]
  note c3 = ConditionalUpdate_cases [of False ?absent "''item1''" dbItem cacheItem 1, unfolded v]
  note c4 = ConditionalUpdate_cases [of False ?present "''item1''" dbItem cacheItem 1, unfolded v]
  note c5 = ConditionalUpdate_cases
      [of False ?newer "''item1''" "dbItem\<lparr>RVersion := ''7''\<rparr>" cacheItem 1, unfolded v]
  have 1: "ConditionalUpdate ?absent ''item1'' cacheItem True
      = ((''2'', None), ?absent(''item1'' \<mapsto> cacheItem\<lparr>RVersion := ''2''\<rparr>))"
    using c1 [THEN conjunct2, THEN conjunct1] a by (simp only: simp_thms)
  have 2: "ConditionalUpdate ?present ''item1'' cacheItem True
      = (([], Some VersionMismatch), ?present)"
    using c2 [THEN conjunct2, THEN conjunct2, THEN conjunct1] p(1) by (simp only: simp_thms)
  have 3: "ConditionalUpdate ?absent ''item1'' cacheItem False
      = (([], Some VersionMismatch), ?absent)"
    using c3 [THEN conjunct2, THEN conjunct2, THEN conjunct1] a by (simp only: simp_thms)
  have 4: "ConditionalUpdate ?present ''item1'' cacheItem False
      = ((''2'', None), ?present(''item1'' \<mapsto> cacheItem\<lparr>RVersion := ''2''\<rparr>))"
    using c4 [THEN conjunct1] p by (simp only: simp_thms)
  have 5: "ConditionalUpdate ?newer ''item1'' cacheItem False
      = (([], Some VersionMismatch), ?newer)"
    using c5 [THEN conjunct2, THEN conjunct2, THEN conjunct1] q by (simp only: simp_thms)
  show ?thesis
    unfolding 1 2 3 4 5 by (simp add: GetItem_def)
qed

section \<open>Properties of the remote facade\<close>

text \<open>
  A body that cannot be decoded never reaches the reader or the committer: the handler
  itself answers 400 with a plain-text message.
\<close>

lemma router_bad_request:
  "(Path rq = ''/read'' \<and> unmarshalRead s (PostBody rq) = Inl err
    \<or> Path rq = ''/prepare'' \<and> unmarshalPrepare s (PostBody rq) = Inl err
    \<or> Path rq = ''/commit'' \<and> unmarshalCommit s (PostBody rq) = Inl err
    \<or> Path rq = ''/abort'' \<and> unmarshalAbort s (PostBody rq) = Inl err) \<Longrightarrow>
   StatusCode (router s rq) = 400 \<and> jsonStatus (router s rq) = None"
  by (auto simp: router_def readHandler_def prepareHandler_def commitHandler_def
      abortHandler_def ctx_Error_def StatusBadRequest_def jsonStatus_def)

text \<open>
  Claim C9 as it is worded puts every handler-level error of the four POST endpoints into
  an HTTP-200 JSON body with \<^verbatim>\<open>Status\<close> "Error". The run that contradicts it: a
  \<^verbatim>\<open>/read\<close> request whose body is not valid JSON. \<^verbatim>\<open>readHandler\<close> raises that error
  itself and answers with \<^verbatim>\<open>ctx.Error(..., StatusBadRequest)\<close>: status 400 and a
  plain-text body, no JSON response at all.
\<close>

theorem router_bad_body_counterexample:
  "unmarshalRead sampleServer ''{'' = Inl ''unexpected end of JSON input''
   \<and> StatusCode (router sampleServer \<lparr>Path = ''/read'', PostBody = ''{''\<rparr>) = 400
   \<and> Body (router sampleServer \<lparr>Path = ''/read'', PostBody = ''{''\<rparr>)
       = Plain ''Invalid timestamp parameter: unexpected end of JSON input''
   \<and> jsonStatus (router sampleServer \<lparr>Path = ''/read'', PostBody = ''{''\<rparr>) = None"
  by (simp add: sampleServer_def router_def readHandler_def ctx_Error_def StatusBadRequest_def
      jsonStatus_def)

text \<open>
  Claim C9, amended. A request whose path is none of \<^verbatim>\<open>/ping\<close>, \<^verbatim>\<open>/read\<close>,
  \<^verbatim>\<open>/prepare\<close>, \<^verbatim>\<open>/commit\<close>, \<^verbatim>\<open>/abort\<close> is answered with status 404. On the four
  POST endpoints, once the body has been decoded, the reply has status 200 and a JSON
  body: when the reader or committer returns an error, \<^verbatim>\<open>Status\<close> is "Error" and
  \<^verbatim>\<open>ErrMsg\<close> is the error's message; when it succeeds, \<^verbatim>\<open>Status\<close> is "OK". A body
  that cannot be decoded is answered with status 400 and a plain-text message.
\<close>

theorem router_responses:
  "(Path rq \<notin> {''/ping'', ''/read'', ''/prepare'', ''/commit'', ''/abort''} \<longrightarrow>
      StatusCode (router s rq) = 404)
   \<and> (Path rq = ''/read'' \<and> unmarshalRead s (PostBody rq) = Inr rreq \<longrightarrow>
        StatusCode (router s rq) = 200
      \<and> (\<forall>err. reader_Read s rreq = Inl err \<longrightarrow>
            jsonStatus (router s rq) = Some (''Error'', err))
      \<and> (\<forall>res. reader_Read s rreq = Inr res \<longrightarrow>
            jsonStatus (router s rq) = Some (''OK'', [])))
   \<and> (Path rq = ''/prepare'' \<and> unmarshalPrepare s (PostBody rq) = Inr preq \<longrightarrow>
        StatusCode (router s rq) = 200
      \<and> (\<forall>err. committer_Prepare s preq = Inl err \<longrightarrow>
            jsonStatus (router s rq) = Some (''Error'', err))
      \<and> (\<forall>res. committer_Prepare s preq = Inr res \<longrightarrow>
            jsonStatus (router s rq) = Some (''OK'', [])))
   \<and> (Path rq = ''/commit'' \<and> unmarshalCommit s (PostBody rq) = Inr creq \<longrightarrow>
        StatusCode (router s rq) = 200
      \<and> (\<forall>err. committer_Commit s creq = Some err \<longrightarrow>
            jsonStatus (router s rq) = Some (''Error'', err))
      \<and> (committer_Commit s creq = None \<longrightarrow>
            jsonStatus (router s rq) = Some (''OK'', [])))
   \<and> (Path rq = ''/abort'' \<and> unmarshalAbort s (PostBody rq) = Inr areq \<longrightarrow>
        StatusCode (router s rq) = 200
      \<and> (\<forall>err. committer_Abort s areq = Some err \<longrightarrow>
            jsonStatus (router s rq) = Some (''Error'', err))
      \<and> (committer_Abort s areq = None \<longrightarrow>
            jsonStatus (router s rq) = Some (''OK'', [])))
   \<and> (Path rq = ''/read'' \<and> unmarshalRead s (PostBody rq) = Inl derr
        \<or> Path rq = ''/prepare'' \<and> unmarshalPrepare s (PostBody rq) = Inl derr
        \<or> Path rq = ''/commit'' \<and> unmarshalCommit s (PostBody rq) = Inl derr
        \<or> Path rq = ''/abort'' \<and> unmarshalAbort s (PostBody rq) = Inl derr \<longrightarrow>
        StatusCode (router s rq) = 400 \<and> jsonStatus (router s rq) = None)"
proof -
  have bad: "Path rq = ''/read'' \<and> unmarshalRead s (PostBody rq) = Inl derr
        \<or> Path rq = ''/prepare'' \<and> unmarshalPrepare s (PostBody rq) = Inl derr
        \<or> Path rq = ''/commit'' \<and> unmarshalCommit s (PostBody rq) = Inl derr
        \<or> Path rq = ''/abort'' \<and> unmarshalAbort s (PostBody rq) = Inl derr \<longrightarrow>
        StatusCode (router s rq) = 400 \<and> jsonStatus (router s rq) = None"
    by (rule impI) (rule router_bad_request)
  have unknown: "Path rq \<notin> {''/ping'', ''/read'', ''/prepare'', ''/commit'', ''/abort''} \<longrightarrow>
      StatusCode (router s rq) = 404"
    by (simp add: router_def ctx_Error_def StatusNotFound_def)
  have rd: "Path rq = ''/read'' \<and> unmarshalRead s (PostBody rq) = Inr rreq \<longrightarrow>
        StatusCode (router s rq) = 200
      \<and> (\<forall>err. reader_Read s rreq = Inl err \<longrightarrow>
            jsonStatus (router s rq) = Some (''Error'', err))
      \<and> (\<forall>res. reader_Read s rreq = Inr res \<longrightarrow>
            jsonStatus (router s rq) = Some (''OK'', []))"
    by (auto simp: router_def readHandler_def ctx_Write_def StatusOK_def jsonStatus_def
        split: sum.splits prod.splits)
  have pr: "Path rq = ''/prepare'' \<and> unmarshalPrepare s (PostBody rq) = Inr preq \<longrightarrow>
        StatusCode (router s rq) = 200
      \<and> (\<forall>err. committer_Prepare s preq = Inl err \<longrightarrow>
            jsonStatus (router s rq) = Some (''Error'', err))
      \<and> (\<forall>res. committer_Prepare s preq = Inr res \<longrightarrow>
            jsonStatus (router s rq) = Some (''OK'', []))"
    by (auto simp: router_def prepareHandler_def ctx_Write_def StatusOK_def jsonStatus_def
        split: sum.splits prod.splits)
  have cm: "Path rq = ''/commit'' \<and> unmarshalCommit s (PostBody rq) = Inr creq \<longrightarrow>
        StatusCode (router s rq) = 200
      \<and> (\<forall>err. committer_Commit s creq = Some err \<longrightarrow>
            jsonStatus (router s rq) = Some (''Error'', err))
      \<and> (committer_Commit s creq = None \<longrightarrow>
            jsonStatus (router s rq) = Some (''OK'', []))"
    by (auto simp: router_def commitHandler_def ctx_Write_def StatusOK_def jsonStatus_def
        split: option.splits)
  have ab: "Path rq = ''/abort'' \<and> unmarshalAbort s (PostBody rq) = Inr areq \<longrightarrow>
        StatusCode (router s rq) = 200
      \<and> (\<forall>err. committer_Abort s areq = Some err \<longrightarrow>
            jsonStatus (router s rq) = Some (''Error'', err))
      \<and> (committer_Abort s areq = None \<longrightarrow>
            jsonStatus (router s rq) = Some (''OK'', []))"
    by (auto simp: router_def abortHandler_def ctx_Write_def StatusOK_def jsonStatus_def
        split: option.splits)
  show ?thesis by (intro conjI unknown rd pr cm ab bad)
qed

theorem router_responses_witness:
  "StatusCode (router sampleServer \<lparr>Path = ''/metrics'', PostBody = ''ok''\<rparr>) = 404
   \<and> StatusCode (router sampleServer \<lparr>Path = ''/read'', PostBody = ''bad''\<rparr>) = 200
   \<and> jsonStatus (router sampleServer \<lparr>Path = ''/read'', PostBody = ''bad''\<rparr>)
       = Some (''Error'', ''read failed due to unknown txn status'')
   \<and> jsonStatus (router sampleServer \<lparr>Path = ''/read'', PostBody = ''ok''\<rparr>) = Some (''OK'', [])
   \<and> jsonStatus (router sampleServer \<lparr>Path = ''/prepare'', PostBody = ''bad''\<rparr>)
       = Some (''Error'', ''version mismatch'')
   \<and> jsonStatus (router sampleServer \<lparr>Path = ''/prepare'', PostBody = ''ok''\<rparr>) = Some (''OK'', [])
   \<and> jsonStatus (router sampleServer \<lparr>Path = ''/commit'', PostBody = ''bad''\<rparr>)
       = Some (''Error'', ''version mismatch'')
   \<and> jsonStatus (router sampleServer \<lparr>Path = ''/commit'', PostBody = ''ok''\<rparr>) = Some (''OK'', [])
   \<and> jsonStatus (router sampleServer \<lparr>Path = ''/abort'', PostBody = ''bad''\<rparr>)
       = Some (''Error'', ''version mismatch'')
   \<and> jsonStatus (router sampleServer \<lparr>Path = ''/abort'', PostBody = ''ok''\<rparr>) = Some (''OK'', [])
   \<and> unmarshalCommit sampleServer ''{'' = Inl ''unexpected end of JSON input''
   \<and> StatusCode (router sampleServer \<lparr>Path = ''/commit'', PostBody = ''{''\<rparr>) = 400"
proof -
  have d: "unmarshalCommit sampleServer ''{'' = Inl ''unexpected end of JSON input''"
    by (simp add: sampleServer_def)
  have 9: "StatusCode (router sampleServer \<lparr>Path = ''/commit'', PostBody = ''{''\<rparr>) = 400"
    using router_responses [where s = sampleServer
        and rq = "\<lparr>Path = ''/commit'', PostBody = ''{''\<rparr>"
        and derr = "''unexpected end of JSON input''"] d
    by simp
  have 0: "StatusCode (router sampleServer \<lparr>Path = ''/metrics'', PostBody = ''ok''\<rparr>) = 404"
    using router_responses [where s = sampleServer
        and rq = "\<lparr>Path = ''/metrics'', PostBody = ''ok''\<rparr>"]
    by simp
  have r: "unmarshalRead sampleServer ''bad''
        = Inr \<lparr>read_DsName = ''Redis'', read_Key = ''locked'', read_StartTime = 200, read_Config = []\<rparr>"
      "unmarshalRead sampleServer ''ok''
        = Inr \<lparr>read_DsName = ''Redis'', read_Key = ''k'', read_StartTime = 200, read_Config = []\<rparr>"
      "reader_Read sampleServer
         \<lparr>read_DsName = ''Redis'', read_Key = ''locked'', read_StartTime = 200, read_Config = []\<rparr>
        = Inl ''read failed due to unknown txn status''"
      "reader_Read sampleServer
         \<lparr>read_DsName = ''Redis'', read_Key = ''k'', read_StartTime = 200, read_Config = []\<rparr>
        = Inr (''item'', ''Normal'', ''txn-0'')"
    by (simp_all add: sampleServer_def)
  have 1: "StatusCode (router sampleServer \<lparr>Path = ''/read'', PostBody = ''bad''\<rparr>) = 200"
    "jsonStatus (router sampleServer \<lparr>Path = ''/read'', PostBody = ''bad''\<rparr>)
       = Some (''Error'', ''read failed due to unknown txn status'')"
    using router_responses [where s = sampleServer
        and rq = "\<lparr>Path = ''/read'', PostBody = ''bad''\<rparr>"
        and rreq = "\<lparr>read_DsName = ''Redis'', read_Key = ''locked'', read_StartTime = 200,
                     read_Config = []\<rparr>"] r
    by simp_all
  have 2: "jsonStatus (router sampleServer \<lparr>Path = ''/read'', PostBody = ''ok''\<rparr>) = Some (''OK'', [])"
    using router_responses [where s = sampleServer
        and rq = "\<lparr>Path = ''/read'', PostBody = ''ok''\<rparr>"
        and rreq = "\<lparr>read_DsName = ''Redis'', read_Key = ''k'', read_StartTime = 200,
                     read_Config = []\<rparr>"] r
    by simp
  have p: "unmarshalPrepare sampleServer ''bad''
        = Inr \<lparr>prepare_DsName = ''Redis'', prepare_ItemList = [''locked''], prepare_StartTime = 200,
               prepare_Config = [], prepare_ValidationMap = []\<rparr>"
      "unmarshalPrepare sampleServer ''ok''
        = Inr \<lparr>prepare_DsName = ''Redis'', prepare_ItemList = [''k''], prepare_StartTime = 200,
               prepare_Config = [], prepare_ValidationMap = []\<rparr>"
      "committer_Prepare sampleServer
         \<lparr>prepare_DsName = ''Redis'', prepare_ItemList = [''locked''], prepare_StartTime = 200,
          prepare_Config = [], prepare_ValidationMap = []\<rparr> = Inl ''version mismatch''"
      "committer_Prepare sampleServer
         \<lparr>prepare_DsName = ''Redis'', prepare_ItemList = [''k''], prepare_StartTime = 200,
          prepare_Config = [], prepare_ValidationMap = []\<rparr> = Inr ([(''k'', ''2'')], 300)"
    by (simp_all add: sampleServer_def)
  have 3: "jsonStatus (router sampleServer \<lparr>Path = ''/prepare'', PostBody = ''bad''\<rparr>)
       = Some (''Error'', ''version mismatch'')"
    using router_responses [where s = sampleServer
        and rq = "\<lparr>Path = ''/prepare'', PostBody = ''bad''\<rparr>"
        and preq = "\<lparr>prepare_DsName = ''Redis'', prepare_ItemList = [''locked''],
                     prepare_StartTime = 200, prepare_Config = [], prepare_ValidationMap = []\<rparr>"] p
    by simp
  have 4: "jsonStatus (router sampleServer \<lparr>Path = ''/prepare'', PostBody = ''ok''\<rparr>) = Some (''OK'', [])"
    using router_responses [where s = sampleServer
        and rq = "\<lparr>Path = ''/prepare'', PostBody = ''ok''\<rparr>"
        and preq = "\<lparr>prepare_DsName = ''Redis'', prepare_ItemList = [''k''],
                     prepare_StartTime = 200, prepare_Config = [], prepare_ValidationMap = []\<rparr>"] p
    by simp
  have c: "unmarshalCommit sampleServer ''bad''
        = Inr \<lparr>commit_DsName = ''Redis'', commit_List = [''locked''], commit_TCommit = 300\<rparr>"
      "unmarshalCommit sampleServer ''ok''
        = Inr \<lparr>commit_DsName = ''Redis'', commit_List = [''k''], commit_TCommit = 300\<rparr>"
      "committer_Commit sampleServer
         \<lparr>commit_DsName = ''Redis'', commit_List = [''locked''], commit_TCommit = 300\<rparr>
        = Some ''version mismatch''"
      "committer_Commit sampleServer
         \<lparr>commit_DsName = ''Redis'', commit_List = [''k''], commit_TCommit = 300\<rparr> = None"
    by (simp_all add: sampleServer_def)
  have 5: "jsonStatus (router sampleServer \<lparr>Path = ''/commit'', PostBody = ''bad''\<rparr>)
       = Some (''Error'', ''version mismatch'')"
    using router_responses [where s = sampleServer
        and rq = "\<lparr>Path = ''/commit'', PostBody = ''bad''\<rparr>"
        and creq = "\<lparr>commit_DsName = ''Redis'', commit_List = [''locked''], commit_TCommit = 300\<rparr>"] c
    by simp
  have 6: "jsonStatus (router sampleServer \<lparr>Path = ''/commit'', PostBody = ''ok''\<rparr>) = Some (''OK'', [])"
    using router_responses [where s = sampleServer
        and rq = "\<lparr>Path = ''/commit'', PostBody = ''ok''\<rparr>"
        and creq = "\<lparr>commit_DsName = ''Redis'', commit_List = [''k''], commit_TCommit = 300\<rparr>"] c
    by simp
  have a: "unmarshalAbort sampleServer ''bad''
        = Inr \<lparr>abort_DsName = ''Redis'', abort_KeyList = [''locked''], abort_GroupKeyList = ''txn-1''\<rparr>"
      "unmarshalAbort sampleServer ''ok''
        = Inr \<lparr>abort_DsName = ''Redis'', abort_KeyList = [''k''], abort_GroupKeyList = ''txn-1''\<rparr>"
      "committer_Abort sampleServer
         \<lparr>abort_DsName = ''Redis'', abort_KeyList = [''locked''], abort_GroupKeyList = ''txn-1''\<rparr>
        = Some ''version mismatch''"
      "committer_Abort sampleServer
         \<lparr>abort_DsName = ''Redis'', abort_KeyList = [''k''], abort_GroupKeyList = ''txn-1''\<rparr> = None"
    by (simp_all add: sampleServer_def)
  have 7: "jsonStatus (router sampleServer \<lparr>Path = ''/abort'', PostBody = ''bad''\<rparr>)
       = Some (''Error'', ''version mismatch'')"
    using router_responses [where s = sampleServer
        and rq = "\<lparr>Path = ''/abort'', PostBody = ''bad''\<rparr>"
        and areq = "\<lparr>abort_DsName = ''Redis'', abort_KeyList = [''locked''],
                     abort_GroupKeyList = ''txn-1''\<rparr>"] a
    by simp
  have 8: "jsonStatus (router sampleServer \<lparr>Path = ''/abort'', PostBody = ''ok''\<rparr>) = Some (''OK'', [])"
    using router_responses [where s = sampleServer
        and rq = "\<lparr>Path = ''/abort'', PostBody = ''ok''\<rparr>"
        and areq = "\<lparr>abort_DsName = ''Redis'', abort_KeyList = [''k''],
                     abort_GroupKeyList = ''txn-1''\<rparr>"] a
    by simp
  from 0 1 2 3 4 5 6 7 8 d 9 show ?thesis by (intro conjI)
qed

end
